theory Spec2Isabelle
  imports Complex_Main "HOL-Library.Multiset"
begin

section \<open>Data model of the meme engine\<close>

text \<open>
  The engine (\<^verbatim>\<open>src/server/memeEngine.ts\<close>) computes with JavaScript numbers. They are
  modelled as \<^typ>\<open>real\<close>: the finite values, with exact arithmetic. \<^verbatim>\<open>NaN\<close> and the
  infinities are outside the model; JSON cannot store them either (\<^verbatim>\<open>JSON.stringify\<close>
  writes \<^verbatim>\<open>null\<close> for them, and \<^verbatim>\<open>0\<close> for a negative zero). The only division whose
  divisor can be zero is the one of \<^verbatim>\<open>getChangePercent\<close>; its result is modelled with
  the infinities and \<^verbatim>\<open>NaN\<close> that JavaScript gives there.

  Timestamps are ISO strings in the source, produced by \<^verbatim>\<open>new Date().toISOString()\<close> and
  read back by \<^verbatim>\<open>new Date(s).getTime()\<close>; the model keeps the milliseconds since the epoch
  that both stand for.
\<close>

record PricePoint =
  timestamp :: int
  price :: real

text \<open>
  \<^verbatim>\<open>MemeData\<close> (declared in \<^verbatim>\<open>storage/memeRegistry\<close>; the fields are the ones the engine
  reads and writes). \<^verbatim>\<open>postId\<close> is optional.
\<close>

record MemeData =
  meme_id :: string
  creatorId :: string
  creatorName :: string
  createdAt :: int
  templateId :: string
  templateUrl :: string
  title :: string
  topText :: string
  bottomText :: string
  categories :: "string list"
  initialSharePrice :: real
  currentSharePrice :: real
  totalShares :: real
  availableShares :: real
  tradeVolume :: real
  priceHistory :: "PricePoint list"
  engagementScore :: real
  lastUpdated :: int
  postId :: "string option"

record MemeValuation =
  memeId :: string
  previousPrice :: real
  currentPrice :: real
  priceChangePercent :: real
  marketCap :: real
  valEngagementScore :: real
  valTimestamp :: int

section \<open>The valuation algorithm\<close>

text \<open>
  \<^verbatim>\<open>x || d\<close> on numbers: \<^verbatim>\<open>d\<close> replaces a falsy \<^verbatim>\<open>x\<close>. Among the finite numbers only
  \<^verbatim>\<open>0\<close> is falsy.
\<close>

definition js_or_num :: "real \<Rightarrow> real \<Rightarrow> real" where
  "js_or_num x d = (if x = 0 then d else x)"

text \<open>Line 173: \<^verbatim>\<open>const prevEngagementScore = meme.engagementScore || 10\<close>.\<close>

definition prevEngagementScore :: "MemeData \<Rightarrow> real" where
  "prevEngagementScore meme = js_or_num (engagementScore meme) 10"

text \<open>Line 176: the score change, as a fraction of the previous score.\<close>

definition scoreChangePercent :: "MemeData \<Rightarrow> real \<Rightarrow> real" where
  "scoreChangePercent meme newEngagementScore =
     (newEngagementScore - prevEngagementScore meme) / prevEngagementScore meme"

text \<open>Line 179; \<open>now\<close> is the value of \<^verbatim>\<open>Date.now()\<close>.\<close>

definition ageInDays :: "int \<Rightarrow> MemeData \<Rightarrow> real" where
  "ageInDays now meme = real_of_int (now - createdAt meme) / (1000 * 60 * 60 * 24)"

definition volatilityFactor :: "int \<Rightarrow> MemeData \<Rightarrow> real" where
  "volatilityFactor now meme = max 0.1 (1 - ageInDays now meme * 0.1)"

definition volumeFactor :: "MemeData \<Rightarrow> real" where
  "volumeFactor meme = min 2 (1 + tradeVolume meme / 1000)"

definition rawPriceChange :: "int \<Rightarrow> MemeData \<Rightarrow> real \<Rightarrow> real" where
  "rawPriceChange now meme newEngagementScore =
     scoreChangePercent meme newEngagementScore * volatilityFactor now meme * volumeFactor meme"

definition calculatePriceChange :: "int \<Rightarrow> MemeData \<Rightarrow> real \<Rightarrow> real" where
  "calculatePriceChange now meme newEngagementScore =
     max (- 0.3) (min 0.3 (rawPriceChange now meme newEngagementScore))"

text \<open>Lines 147 to 150 of \<^verbatim>\<open>calculateMemeValue\<close>: the new price, with its floor.\<close>

definition newPrice :: "MemeData \<Rightarrow> real \<Rightarrow> real" where
  "newPrice meme pct = max 0.1 (currentSharePrice meme * (1 + pct))"

section \<open>External collaborators\<close>

text \<open>
  The engine talks to a key-value store (\<^verbatim>\<open>redis\<close>), to Reddit, to a job scheduler and to
  the market-history sink. Their state is one record. The store holds JSON under four
  families of keys, \<^verbatim>\<open>memes:<id>\<close>, \<^verbatim>\<open>meme_index\<close>, \<^verbatim>\<open>category:<name>\<close> and
  \<^verbatim>\<open>portfolio:<userId>\<close>; no two keys of different families are equal, so the store is
  modelled as four maps holding the values the JSON stands for
  (\<^verbatim>\<open>JSON.parse (JSON.stringify v) = v\<close> on the values of the model).

  Every \<^verbatim>\<open>await\<close> may throw. For the store, the scheduler and the sink a script of
  booleans says which of the coming calls throw: each call consumes the head of its
  script and throws, without any other effect, when the head is \<open>True\<close>; an empty script
  means no further call throws. Reddit throws where it has no answer: no current user, no
  post under the id.

  Calls run one at a time, each in the world the call before it left; overlapping
  invocations are not modelled.
\<close>

record Holding =
  shares :: real
  averageBuyPrice :: real

record User =
  user_id :: string
  username :: string

record Post =
  score :: real
  commentCount :: real

text \<open>A job handed to \<^verbatim>\<open>scheduler.runAfter(delay, name, { memeId })\<close>.\<close>

record Job =
  delay :: nat
  jobName :: string
  payload :: string

datatype error = RedditError | StoreError | SchedulerError | SinkError | MemeNotFound string

record world =
  memes :: "string \<rightharpoonup> MemeData"
  meme_index :: "string list option"
  category :: "string \<rightharpoonup> string list"
  portfolio :: "string \<rightharpoonup> (string \<rightharpoonup> Holding)"
  redis_faults :: "bool list"
  current_user :: "User option"
  posts :: "string \<rightharpoonup> Post"
  jobs :: "Job list"
  sched_faults :: "bool list"
  market_history :: "MemeValuation list"
  sink_faults :: "bool list"

text \<open>
  An action runs on the world and returns a value or the error thrown, with the world it
  leaves: what was written before a throw stays written.
\<close>

type_synonym 'a io = "world \<Rightarrow> (error + 'a) \<times> world"

definition io_return :: "'a \<Rightarrow> 'a io" where
  "io_return x = (\<lambda>w. (Inr x, w))"

definition io_throw :: "error \<Rightarrow> 'a io" where
  "io_throw e = (\<lambda>w. (Inl e, w))"

definition io_bind :: "'a io \<Rightarrow> ('a \<Rightarrow> 'b io) \<Rightarrow> 'b io" where
  "io_bind m f = (\<lambda>w. case m w of (Inl e, w') \<Rightarrow> (Inl e, w') | (Inr x, w') \<Rightarrow> f x w')"

text \<open>\<^verbatim>\<open>try { m } catch (error) { h error }\<close>.\<close>

definition io_catch :: "'a io \<Rightarrow> (error \<Rightarrow> 'a io) \<Rightarrow> 'a io" where
  "io_catch m h = (\<lambda>w. case m w of (Inl e, w') \<Rightarrow> h e w' | (Inr x, w') \<Rightarrow> (Inr x, w'))"

subsection \<open>The store\<close>

definition throws_next :: "bool list \<Rightarrow> bool" where
  "throws_next script = (case script of [] \<Rightarrow> False | b # _ \<Rightarrow> b)"

definition redis_call :: "(world \<Rightarrow> 'a \<times> world) \<Rightarrow> 'a io" where
  "redis_call op = (\<lambda>w.
     let w1 = w\<lparr>redis_faults := tl (redis_faults w)\<rparr> in
     if throws_next (redis_faults w) then (Inl StoreError, w1)
     else (case op w1 of (x, w') \<Rightarrow> (Inr x, w')))"

definition redis_get_meme :: "string \<Rightarrow> MemeData option io" where
  "redis_get_meme k = redis_call (\<lambda>w. (memes w k, w))"

definition redis_set_meme :: "string \<Rightarrow> MemeData \<Rightarrow> unit io" where
  "redis_set_meme k m = redis_call (\<lambda>w. ((), w\<lparr>memes := (memes w)(k \<mapsto> m)\<rparr>))"

definition redis_get_index :: "string list option io" where
  "redis_get_index = redis_call (\<lambda>w. (meme_index w, w))"

definition redis_set_index :: "string list \<Rightarrow> unit io" where
  "redis_set_index ids = redis_call (\<lambda>w. ((), w\<lparr>meme_index := Some ids\<rparr>))"

definition redis_get_category :: "string \<Rightarrow> string list option io" where
  "redis_get_category c = redis_call (\<lambda>w. (category w c, w))"

definition redis_set_category :: "string \<Rightarrow> string list \<Rightarrow> unit io" where
  "redis_set_category c ids = redis_call (\<lambda>w. ((), w\<lparr>category := (category w)(c \<mapsto> ids)\<rparr>))"

definition redis_get_portfolio :: "string \<Rightarrow> (string \<rightharpoonup> Holding) option io" where
  "redis_get_portfolio u = redis_call (\<lambda>w. (portfolio w u, w))"

definition redis_set_portfolio :: "string \<Rightarrow> (string \<rightharpoonup> Holding) \<Rightarrow> unit io" where
  "redis_set_portfolio u p = redis_call (\<lambda>w. ((), w\<lparr>portfolio := (portfolio w)(u \<mapsto> p)\<rparr>))"

text \<open>\<^verbatim>\<open>JSON.parse((await redis.get(key)) || '[]')\<close>: a missing list reads as the empty one.\<close>

definition ids_or_empty :: "string list option \<Rightarrow> string list" where
  "ids_or_empty v = (case v of None \<Rightarrow> [] | Some ids \<Rightarrow> ids)"

text \<open>\<^verbatim>\<open>JSON.parse((await redis.get(key)) || '{}')\<close>: a missing portfolio reads as the empty one.\<close>

definition portfolio_or_empty :: "(string \<rightharpoonup> Holding) option \<Rightarrow> (string \<rightharpoonup> Holding)" where
  "portfolio_or_empty v = (case v of None \<Rightarrow> Map.empty | Some p \<Rightarrow> p)"

subsection \<open>Reddit, the scheduler and the sink\<close>

definition reddit_getCurrentUser :: "User io" where
  "reddit_getCurrentUser = (\<lambda>w.
     case current_user w of None \<Rightarrow> (Inl RedditError, w) | Some u \<Rightarrow> (Inr u, w))"

definition reddit_getPostById :: "string \<Rightarrow> Post io" where
  "reddit_getPostById pid = (\<lambda>w.
     case posts w pid of None \<Rightarrow> (Inl RedditError, w) | Some p \<Rightarrow> (Inr p, w))"

definition scheduler_runAfter :: "nat \<Rightarrow> string \<Rightarrow> string \<Rightarrow> unit io" where
  "scheduler_runAfter d name mid = (\<lambda>w.
     let w1 = w\<lparr>sched_faults := tl (sched_faults w)\<rparr> in
     if throws_next (sched_faults w) then (Inl SchedulerError, w1)
     else (Inr (), w1\<lparr>jobs := jobs w1 @ [\<lparr>delay = d, jobName = name, payload = mid\<rparr>]\<rparr>))"

text \<open>
  Modelled from the spec: \<^verbatim>\<open>updateMarketHistory\<close> of \<^verbatim>\<open>storage/marketHistory\<close>, which is
  not among the sources. The spec's contract of the market-history sink is
  \<^verbatim>\<open>record(valuation)\<close>, a best-effort append of a Valuation record for downstream
  reporting: the call appends the valuation to the sink, or throws, and touches nothing
  else.
\<close>

definition updateMarketHistory :: "MemeValuation \<Rightarrow> unit io" where
  "updateMarketHistory v = (\<lambda>w.
     let w1 = w\<lparr>sink_faults := tl (sink_faults w)\<rparr> in
     if throws_next (sink_faults w) then (Inl SinkError, w1)
     else (Inr (), w1\<lparr>market_history := market_history w1 @ [v]\<rparr>))"

section \<open>Issuance: \<^verbatim>\<open>createMeme\<close>\<close>

record CreateRequest =
  req_templateId :: string
  req_templateUrl :: string
  req_title :: string
  req_topText :: "string option"
  req_bottomText :: "string option"
  req_categories :: "string list"
  req_initialSharePrice :: real

text \<open>\<^verbatim>\<open>s || ''\<close> on an optional string.\<close>

definition text_or_empty :: "string option \<Rightarrow> string" where
  "text_or_empty s = (case s of None \<Rightarrow> [] | Some t \<Rightarrow> t)"

text \<open>Decimal digits, for the id \<^verbatim>\<open>`meme_${Date.now()}_${Math.floor(Math.random() * 1000)}`\<close>.\<close>

fun show_nat :: "nat \<Rightarrow> string" where
  "show_nat n =
     (if n < 10 then [''0123456789'' ! n]
      else show_nat (n div 10) @ [''0123456789'' ! (n mod 10)])"

declare show_nat.simps [simp del]

definition show_int :: "int \<Rightarrow> string" where
  "show_int i = (if i < 0 then CHR ''-'' # show_nat (nat (- i)) else show_nat (nat i))"

text \<open>\<open>now\<close> is \<^verbatim>\<open>Date.now()\<close>, \<open>rnd\<close> is \<^verbatim>\<open>Math.floor(Math.random() * 1000)\<close>.\<close>

definition newMemeId :: "int \<Rightarrow> nat \<Rightarrow> string" where
  "newMemeId now rnd = ''meme_'' @ show_int now @ ''_'' @ show_nat rnd"

text \<open>Lines 34 to 58. The clock reads of one call are taken to give the same instant.\<close>

definition newMemeData :: "CreateRequest \<Rightarrow> User \<Rightarrow> int \<Rightarrow> nat \<Rightarrow> MemeData" where
  "newMemeData req currentUser now rnd =
     \<lparr> meme_id = newMemeId now rnd,
       creatorId = user_id currentUser,
       creatorName = username currentUser,
       createdAt = now,
       templateId = req_templateId req,
       templateUrl = req_templateUrl req,
       title = req_title req,
       topText = text_or_empty (req_topText req),
       bottomText = text_or_empty (req_bottomText req),
       categories = req_categories req,
       initialSharePrice = req_initialSharePrice req,
       currentSharePrice = req_initialSharePrice req,
       totalShares = 1000,
       availableShares = 1000,
       tradeVolume = 0,
       priceHistory = [\<lparr>timestamp = now, price = req_initialSharePrice req\<rparr>],
       engagementScore = 10,
       lastUpdated = now,
       postId = None \<rparr>"

text \<open>Lines 70 to 75: the loop over the categories.\<close>

primrec add_to_categories :: "string \<Rightarrow> string list \<Rightarrow> unit io" where
  "add_to_categories mid [] = io_return ()"
| "add_to_categories mid (c # cs) =
     io_bind (redis_get_category c) (\<lambda>categoryIndex.
     io_bind (redis_set_category c (ids_or_empty categoryIndex @ [mid])) (\<lambda>_.
     add_to_categories mid cs))"

definition createMeme :: "CreateRequest \<Rightarrow> int \<Rightarrow> nat \<Rightarrow> MemeData io" where
  "createMeme req now rnd =
     io_catch
       (io_bind reddit_getCurrentUser (\<lambda>currentUser.
        let mid = newMemeId now rnd;
            newMeme = newMemeData req currentUser now rnd
        in
        io_bind (redis_set_meme mid newMeme) (\<lambda>_.
        io_bind redis_get_index (\<lambda>memeIndex.
        io_bind (redis_set_index (ids_or_empty memeIndex @ [mid])) (\<lambda>_.
        io_bind (add_to_categories mid (req_categories req)) (\<lambda>_.
        io_bind (redis_get_portfolio (user_id currentUser)) (\<lambda>creatorPortfolio.
        let portfolio' = (portfolio_or_empty creatorPortfolio)
                           (mid \<mapsto> \<lparr>shares = 100, averageBuyPrice = 0\<rparr>);
            newMeme' = newMeme\<lparr>availableShares := availableShares newMeme - 100\<rparr>
        in
        io_bind (redis_set_meme mid newMeme') (\<lambda>_.
        io_bind (redis_set_portfolio (user_id currentUser) portfolio') (\<lambda>_.
        io_bind (scheduler_runAfter 3600 ''updateMemeValuation'' mid) (\<lambda>_.
        io_return newMeme'))))))))))
       (\<lambda>error. io_throw error)"

section \<open>Valuation: \<^verbatim>\<open>calculateMemeValue\<close>\<close>

text \<open>\<^verbatim>\<open>if (meme.postId)\<close>: the id is there and is not the empty string.\<close>

definition truthy_string :: "string option \<Rightarrow> bool" where
  "truthy_string s = (case s of None \<Rightarrow> False | Some t \<Rightarrow> t \<noteq> [])"

text \<open>Lines 133 to 136.\<close>

definition engagementFromPost :: "MemeData \<Rightarrow> Post \<Rightarrow> real" where
  "engagementFromPost meme post =
     max 10 (score post * 0.5 + commentCount post * 2 + tradeVolume meme * 3)"

text \<open>
  Lines 121 to 141: the stored score, replaced by the post's when the meme has a post and
  Reddit answers; a failed fetch is caught and the stored score stays.
\<close>

definition fetchEngagement :: "MemeData \<Rightarrow> real io" where
  "fetchEngagement meme =
     (let stored = js_or_num (engagementScore meme) 10 in
      case postId meme of
        None \<Rightarrow> io_return stored
      | Some pid \<Rightarrow>
          if truthy_string (Some pid) then
            io_catch
              (io_bind (reddit_getPostById pid) (\<lambda>post.
               io_return (engagementFromPost meme post)))
              (\<lambda>error. io_return stored)
          else io_return stored)"

text \<open>Lines 146 to 163: the valuation of a meme at a score; \<open>now\<close> is the clock.\<close>

definition makeValuation :: "string \<Rightarrow> int \<Rightarrow> MemeData \<Rightarrow> real \<Rightarrow> MemeValuation" where
  "makeValuation mid now meme score' =
     (let pct = calculatePriceChange now meme score';
          price' = newPrice meme pct
      in \<lparr> memeId = mid,
           previousPrice = currentSharePrice meme,
           currentPrice = price',
           priceChangePercent = pct,
           marketCap = totalShares meme * price',
           valEngagementScore = score',
           valTimestamp = now \<rparr>)"

definition calculateMemeValue :: "string \<Rightarrow> int \<Rightarrow> MemeValuation io" where
  "calculateMemeValue mid now =
     io_catch
       (io_bind (redis_get_meme mid) (\<lambda>memeJson.
        case memeJson of
          None \<Rightarrow> io_throw (MemeNotFound mid)
        | Some meme \<Rightarrow>
            io_bind (fetchEngagement meme) (\<lambda>score'.
            io_return (makeValuation mid now meme score'))))
       (\<lambda>error. io_throw error)"

section \<open>The recompute loop: \<^verbatim>\<open>updateMemeValuation\<close>\<close>

text \<open>
  \<^verbatim>\<open>xs.slice(start, end)\<close> on integers: a negative index counts from the end, and both
  ends are clipped to the array.
\<close>

definition js_slice :: "'a list \<Rightarrow> int \<Rightarrow> int \<Rightarrow> 'a list" where
  "js_slice xs start end' =
     (let len = int (length xs);
          k = (if start < 0 then max (len + start) 0 else min start len);
          final = (if end' < 0 then max (len + end') 0 else min end' len)
      in take (nat (final - k)) (drop (nat k) xs))"

text \<open>\<^verbatim>\<open>xs.slice(start)\<close>: the end defaults to the length.\<close>

definition js_slice_from :: "'a list \<Rightarrow> int \<Rightarrow> 'a list" where
  "js_slice_from xs start = js_slice xs start (int (length xs))"

text \<open>Lines 209 to 223: the valuation written into the meme read from the store.\<close>

definition commitValuation :: "MemeData \<Rightarrow> MemeValuation \<Rightarrow> MemeData" where
  "commitValuation meme valuation =
     (let history = priceHistory meme
            @ [\<lparr>timestamp = valTimestamp valuation, price = currentPrice valuation\<rparr>]
      in meme\<lparr> currentSharePrice := currentPrice valuation,
               engagementScore := valEngagementScore valuation,
               lastUpdated := valTimestamp valuation,
               priceHistory :=
                 (if length history > 24
                  then js_slice_from history (int (length history) - 24)
                  else history) \<rparr>)"

definition updateMemeValuation :: "string \<Rightarrow> int \<Rightarrow> unit io" where
  "updateMemeValuation mid now =
     io_catch
       (io_bind (calculateMemeValue mid now) (\<lambda>valuation.
        io_bind (redis_get_meme mid) (\<lambda>memeJson.
        case memeJson of
          None \<Rightarrow> io_throw (MemeNotFound mid)
        | Some meme \<Rightarrow>
            io_bind (redis_set_meme mid (commitValuation meme valuation)) (\<lambda>_.
            io_bind (updateMarketHistory valuation) (\<lambda>_.
            scheduler_runAfter 3600 ''updateMemeValuation'' mid)))))
       (\<lambda>error. scheduler_runAfter 3600 ''updateMemeValuation'' mid)"

section \<open>Ranking: \<^verbatim>\<open>getTrendingMemes\<close>\<close>

text \<open>
  The percent change of the ranking divides by a stored price, which can be zero. The
  numbers of that computation are the finite ones, the two infinities and \<^verbatim>\<open>NaN\<close>.
\<close>

datatype jsnum = NaN | NegInfinity | Finite real | Infinity

text \<open>
  \<^verbatim>\<open>x / y\<close> on finite numbers: a zero divisor gives an infinity of the sign of \<open>x\<close>, and
  \<^verbatim>\<open>NaN\<close> for \<^verbatim>\<open>0 / 0\<close>.
\<close>

definition js_div :: "real \<Rightarrow> real \<Rightarrow> jsnum" where
  "js_div x y =
     (if y \<noteq> 0 then Finite (x / y)
      else if 0 < x then Infinity
      else if x < 0 then NegInfinity
      else NaN)"

text \<open>\<^verbatim>\<open>a - b\<close>: \<^verbatim>\<open>NaN\<close> when an operand is, and for the difference of equal infinities.\<close>

fun js_sub :: "jsnum \<Rightarrow> jsnum \<Rightarrow> jsnum" where
  "js_sub NaN b = NaN"
| "js_sub a NaN = NaN"
| "js_sub (Finite x) (Finite y) = Finite (x - y)"
| "js_sub Infinity Infinity = NaN"
| "js_sub NegInfinity NegInfinity = NaN"
| "js_sub Infinity b = Infinity"
| "js_sub NegInfinity b = NegInfinity"
| "js_sub a Infinity = NegInfinity"
| "js_sub a NegInfinity = Infinity"

text \<open>\<^verbatim>\<open>v > 0\<close>, and \<^verbatim>\<open>a <= b\<close>: every comparison with \<^verbatim>\<open>NaN\<close> is false.\<close>

definition js_positive :: "jsnum \<Rightarrow> bool" where
  "js_positive v = (case v of Finite x \<Rightarrow> 0 < x | Infinity \<Rightarrow> True | _ \<Rightarrow> False)"


text \<open>Lines 272 to 277.\<close>

definition getChangePercent :: "MemeData \<Rightarrow> jsnum" where
  "getChangePercent meme =
     (let h = priceHistory meme in
      if length h < 2 then Finite 0
      else
        let current = price (h ! (length h - 1));
            previous = price (h ! (length h - 2))
        in js_div (current - previous) previous)"

text \<open>The comparator of line 279.\<close>

definition trendingCompare :: "MemeData \<Rightarrow> MemeData \<Rightarrow> jsnum" where
  "trendingCompare a b = js_sub (getChangePercent b) (getChangePercent a)"

text \<open>
  \<^verbatim>\<open>Array.prototype.sort(cmp)\<close> is a stable sort: \<open>a\<close> stays before \<open>b\<close> unless
  \<open>cmp a b > 0\<close>, and a \<^verbatim>\<open>NaN\<close> from the comparator counts as \<open>0\<close>. For a comparator
  that orders the elements consistently the result is the one stable insertion sort
  computes. Where it does not (a \<^verbatim>\<open>NaN\<close> change compares equal to everything) the
  language leaves the order to the engine; insertion then gives what V8 returns for an
  array that the comparator never finds out of order at neighbouring places: the array
  as it is.
\<close>

fun js_insert :: "('a \<Rightarrow> 'a \<Rightarrow> jsnum) \<Rightarrow> 'a \<Rightarrow> 'a list \<Rightarrow> 'a list" where
  "js_insert cmp x [] = [x]"
| "js_insert cmp x (y # ys) =
     (if js_positive (cmp x y) then y # js_insert cmp x ys else x # y # ys)"

definition js_sort :: "('a \<Rightarrow> 'a \<Rightarrow> jsnum) \<Rightarrow> 'a list \<Rightarrow> 'a list" where
  "js_sort cmp xs = foldr (js_insert cmp) xs []"

text \<open>\<^verbatim>\<open>ToIntegerOrInfinity\<close> on a finite number: truncation towards zero.\<close>

definition js_to_integer :: "real \<Rightarrow> int" where
  "js_to_integer r = (if 0 \<le> r then \<lfloor>r\<rfloor> else \<lceil>r\<rceil>)"

text \<open>Lines 261 to 267: the memes of the ids that have a record, in the order of the ids.\<close>

primrec load_memes :: "string list \<Rightarrow> MemeData list \<Rightarrow> MemeData list io" where
  "load_memes [] acc = io_return acc"
| "load_memes (k # ks) acc =
     io_bind (redis_get_meme k) (\<lambda>memeJson.
     case memeJson of
       None \<Rightarrow> load_memes ks acc
     | Some meme \<Rightarrow> load_memes ks (acc @ [meme]))"

text \<open>Lines 248 to 258: \<^verbatim>\<open>if (category)\<close> holds for a category that is not the empty string.\<close>

definition memeIdsToFetch :: "string option \<Rightarrow> string list io" where
  "memeIdsToFetch category_opt =
     (case category_opt of
        None \<Rightarrow> io_bind redis_get_index (\<lambda>memeIndex. io_return (ids_or_empty memeIndex))
      | Some c \<Rightarrow>
          if truthy_string (Some c)
          then io_bind (redis_get_category c) (\<lambda>categoryIndex.
                 io_return (ids_or_empty categoryIndex))
          else io_bind redis_get_index (\<lambda>memeIndex. io_return (ids_or_empty memeIndex)))"

text \<open>The defaults of the parameters: \<^verbatim>\<open>limit = 10\<close>, \<^verbatim>\<open>category = null\<close>.\<close>

definition getTrendingMemes :: "real option \<Rightarrow> string option \<Rightarrow> MemeData list io" where
  "getTrendingMemes limit_opt category_opt =
     (let limit = (case limit_opt of None \<Rightarrow> 10 | Some l \<Rightarrow> l) in
      io_catch
        (io_bind (memeIdsToFetch category_opt) (\<lambda>ids.
         io_bind (load_memes ids []) (\<lambda>loaded.
         let sortedMemes = js_sort trendingCompare loaded
         in io_return (js_slice sortedMemes 0 (js_to_integer limit)))))
        (\<lambda>error. io_return []))"

text \<open>
  The pass gets as far as its own scheduler call (line 232) when the asset is in the
  store and neither its three store calls nor the sink call throw.
\<close>

definition reaches_scheduling :: "string \<Rightarrow> world \<Rightarrow> bool" where
  "reaches_scheduling mid w =
     (memes w mid \<noteq> None \<and> True \<notin> set (take 3 (redis_faults w)) \<and> \<not> throws_next (sink_faults w))"

section \<open>The scheduler running the loop\<close>

text \<open>
  The jobs the scheduler fires, one after the other: each is a recompute pass for an id at
  an instant, started in the world the pass before it left.
\<close>

primrec run_ticks :: "(string \<times> int) list \<Rightarrow> world \<Rightarrow> world" where
  "run_ticks [] w = w"
| "run_ticks (t # ts) w = run_ticks ts (snd (updateMemeValuation (fst t) (snd t) w))"

section \<open>The category indexes after an issuance\<close>

text \<open>
  What the loop of lines 70 to 75 leaves in the category indexes when no call throws: the
  id appended to the index of each category of the request, in their order.
\<close>

primrec category_after ::
  "string \<Rightarrow> string list \<Rightarrow> (string \<rightharpoonup> string list) \<Rightarrow> (string \<rightharpoonup> string list)" where
  "category_after mid [] cat = cat"
| "category_after mid (c # cs) cat = category_after mid cs (cat(c \<mapsto> ids_or_empty (cat c) @ [mid]))"

section \<open>The candidates of a ranking\<close>

text \<open>
  The ids the ranking reads (lines 248 to 258) in a given world: those of the category's
  index for a category that is not the empty string, those of the global index otherwise.
\<close>

definition indexed_ids :: "string option \<Rightarrow> world \<Rightarrow> string list" where
  "indexed_ids category_opt w =
     (case category_opt of
        None \<Rightarrow> ids_or_empty (meme_index w)
      | Some c \<Rightarrow>
          if truthy_string (Some c) then ids_or_empty (category w c)
          else ids_or_empty (meme_index w))"

section \<open>Assertions on actions\<close>

text \<open>
  \<open>preserves P m\<close>: the action keeps the property of the world, however it ends.
  \<open>triple P m Q\<close>: started where \<open>P\<close> holds, the action ends with a result and a world
  that \<open>Q\<close> relates.
\<close>

definition preserves :: "(world \<Rightarrow> bool) \<Rightarrow> 'a io \<Rightarrow> bool" where
  "preserves P m = (\<forall>w. P w \<longrightarrow> P (snd (m w)))"

definition triple :: "(world \<Rightarrow> bool) \<Rightarrow> 'a io \<Rightarrow> (error + 'a \<Rightarrow> world \<Rightarrow> bool) \<Rightarrow> bool" where
  "triple P m Q = (\<forall>w. P w \<longrightarrow> Q (fst (m w)) (snd (m w)))"

section \<open>Example values\<close>

text \<open>
  A user, a creation request and a world with an empty store in which no call throws:
  the concrete inputs of the examples below.
\<close>

definition example_user :: User where
  "example_user = \<lparr>user_id = ''t2_alice'', username = ''alice''\<rparr>"

definition example_request :: "real \<Rightarrow> CreateRequest" where
  "example_request p =
     \<lparr> req_templateId = ''drake'',
       req_templateUrl = ''https://i.imgflip.com/30b1gx.jpg'',
       req_title = ''Monday'',
       req_topText = Some ''Mondays'',
       req_bottomText = None,
       req_categories = [''funny''],
       req_initialSharePrice = p \<rparr>"

definition empty_world :: world where
  "empty_world =
     \<lparr> memes = Map.empty,
       meme_index = None,
       category = Map.empty,
       portfolio = Map.empty,
       redis_faults = [],
       current_user = Some example_user,
       posts = Map.empty,
       jobs = [],
       sched_faults = [],
       market_history = [],
       sink_faults = [] \<rparr>"

text \<open>The meme \<^verbatim>\<open>createMeme\<close> builds for the example request at price 10 (line 34 to 58).\<close>

definition example_meme :: MemeData where
  "example_meme = newMemeData (example_request 10) example_user 0 7"

text \<open>A world whose store holds that meme, listed in the index.\<close>

definition example_world :: world where
  "example_world =
     empty_world\<lparr> memes := [''meme_0_7'' \<mapsto> example_meme],
                  meme_index := Some [''meme_0_7''] \<rparr>"

text \<open>
  A second meme, whose price rose from 10 to 13 at its last tick, and a world that lists
  both memes and a third id that has no record.
\<close>

definition rising_meme :: MemeData where
  "rising_meme =
     example_meme\<lparr> meme_id := ''meme_1_8'',
                   currentSharePrice := 13,
                   priceHistory := [\<lparr>timestamp = 1, price = 10\<rparr>, \<lparr>timestamp = 3600001, price = 13\<rparr>] \<rparr>"

definition two_meme_world :: world where
  "two_meme_world =
     empty_world\<lparr> memes := [''meme_0_7'' \<mapsto> example_meme, ''meme_1_8'' \<mapsto> rising_meme],
                  meme_index := Some [''meme_0_7'', ''meme_9_9'', ''meme_1_8''] \<rparr>"

text \<open>
  A meme launched at the price 0 and valued once, so that its second-to-last price is
  zero; a meme whose last two prices are both zero; and a world for each, listing it
  between the two memes above.
\<close>

definition launched_at_zero :: MemeData where
  "launched_at_zero =
     example_meme\<lparr> meme_id := ''meme_2_9'',
                   initialSharePrice := 0,
                   currentSharePrice := 0.1,
                   priceHistory := [\<lparr>timestamp = 2, price = 0\<rparr>, \<lparr>timestamp = 3600002, price = 0.1\<rparr>] \<rparr>"

definition flat_zero_meme :: MemeData where
  "flat_zero_meme =
     example_meme\<lparr> meme_id := ''meme_3_0'',
                   initialSharePrice := 0,
                   currentSharePrice := 0,
                   priceHistory := [\<lparr>timestamp = 3, price = 0\<rparr>, \<lparr>timestamp = 4, price = 0\<rparr>] \<rparr>"



section \<open>Reasoning about actions\<close>

subsection \<open>The action combinators\<close>

lemma io_return_apply [simp]: "io_return x w = (Inr x, w)"
  by (simp add: io_return_def)

lemma io_throw_apply [simp]: "io_throw e w = (Inl e, w)"
  by (simp add: io_throw_def)

lemma io_bind_Inl: "m w = (Inl e, w') \<Longrightarrow> io_bind m f w = (Inl e, w')"
  by (simp add: io_bind_def)

lemma io_bind_Inr: "m w = (Inr x, w') \<Longrightarrow> io_bind m f w = f x w'"
  by (simp add: io_bind_def)

lemma io_catch_Inl: "m w = (Inl e, w') \<Longrightarrow> io_catch m h w = h e w'"
  by (simp add: io_catch_def)

lemma io_catch_Inr: "m w = (Inr x, w') \<Longrightarrow> io_catch m h w = (Inr x, w')"
  by (simp add: io_catch_def)

lemma io_catch_rethrow [simp]: "io_catch m (\<lambda>e. io_throw e) = m"
  by (rule ext) (simp add: io_catch_def split: prod.splits sum.splits)

lemma io_catch_bind_Inr: "m w = (Inr x, w') \<Longrightarrow> io_catch (io_bind m f) h w = io_catch (f x) h w'"
  by (simp add: io_catch_def io_bind_def)

lemma io_catch_bind_Inl: "m w = (Inl e, w') \<Longrightarrow> io_catch (io_bind m f) h w = h e w'"
  by (simp add: io_catch_def io_bind_def)

lemma io_bind_InrE:
  assumes "io_bind m f w = (Inr y, w'')"
  obtains x w' where "m w = (Inr x, w')" and "f x w' = (Inr y, w'')"
  using assms by (auto simp: io_bind_def split: prod.splits sum.splits)

lemma io_result_cases:
  obtains (throws) e w' where "m w = (Inl e, w')" | (returns) x w' where "m w = (Inr x, w')"
  by (cases "m w") (metis sum.exhaust_sel prod.collapse old.prod.inject)

subsection \<open>Properties kept by an action\<close>

lemma preservesI: "(\<And>w. P w \<Longrightarrow> P (snd (m w))) \<Longrightarrow> preserves P m"
  by (simp add: preserves_def)

lemma preservesD: "preserves P m \<Longrightarrow> P w \<Longrightarrow> P (snd (m w))"
  by (simp add: preserves_def)

lemma preserves_return: "preserves P (io_return x)"
  by (simp add: preserves_def)

lemma preserves_throw: "preserves P (io_throw e)"
  by (simp add: preserves_def)

lemma preserves_bind:
  assumes "preserves P m" and "\<And>x. preserves P (f x)"
  shows "preserves P (io_bind m f)"
proof (rule preservesI)
  fix w assume P: "P w"
  show "P (snd (io_bind m f w))"
  proof (cases rule: io_result_cases [of m w])
    case (throws e w')
    with preservesD [OF assms(1) P] show ?thesis by (simp add: io_bind_Inl)
  next
    case (returns x w')
    with preservesD [OF assms(1) P] have "P w'" by simp
    from preservesD [OF assms(2) this, of x] returns show ?thesis by (simp add: io_bind_Inr)
  qed
qed

lemma preserves_catch:
  assumes "preserves P m" and "\<And>e. preserves P (h e)"
  shows "preserves P (io_catch m h)"
proof (rule preservesI)
  fix w assume P: "P w"
  show "P (snd (io_catch m h w))"
  proof (cases rule: io_result_cases [of m w])
    case (throws e w')
    with preservesD [OF assms(1) P] have "P w'" by simp
    from preservesD [OF assms(2) this, of e] throws show ?thesis by (simp add: io_catch_Inl)
  next
    case (returns x w')
    with preservesD [OF assms(1) P] show ?thesis by (simp add: io_catch_Inr)
  qed
qed

lemma preserves_redis_call:
  assumes "\<And>w fs. P w \<Longrightarrow> P (w\<lparr>redis_faults := fs\<rparr>)"
    and "\<And>w. P w \<Longrightarrow> P (snd (op w))"
  shows "preserves P (redis_call op)"
proof (rule preservesI)
  fix w assume "P w"
  then have P1: "P (w\<lparr>redis_faults := tl (redis_faults w)\<rparr>)" by (rule assms(1))
  from assms(2) [OF P1] P1 show "P (snd (redis_call op w))"
    by (simp add: redis_call_def Let_def case_prod_beta)
qed

lemma preserves_redis_get:
  assumes "\<And>w fs. P w \<Longrightarrow> P (w\<lparr>redis_faults := fs\<rparr>)"
  shows "preserves P (redis_get_meme k)" and "preserves P redis_get_index"
    and "preserves P (redis_get_category c)" and "preserves P (redis_get_portfolio u)"
  unfolding redis_get_meme_def redis_get_index_def redis_get_category_def redis_get_portfolio_def
  by (rule preserves_redis_call; simp add: assms)+

lemma preserves_reddit: "preserves P reddit_getCurrentUser" "preserves P (reddit_getPostById pid)"
  by (auto simp: preserves_def reddit_getCurrentUser_def reddit_getPostById_def split: option.splits)

lemma preserves_fetchEngagement: "preserves P (fetchEngagement meme)"
  unfolding fetchEngagement_def Let_def
  by (auto split: option.splits intro!: preserves_return preserves_catch preserves_bind preserves_reddit)

lemma preserves_calculateMemeValue:
  assumes "\<And>w fs. P w \<Longrightarrow> P (w\<lparr>redis_faults := fs\<rparr>)"
  shows "preserves P (calculateMemeValue mid now)"
  unfolding calculateMemeValue_def io_catch_rethrow
  by (auto split: option.splits intro!: preserves_bind preserves_redis_get preserves_return preserves_throw preserves_fetchEngagement assms)

subsection \<open>Results of an action\<close>

lemma tripleI: "(\<And>w. P w \<Longrightarrow> Q (fst (m w)) (snd (m w))) \<Longrightarrow> triple P m Q"
  by (simp add: triple_def)

lemma tripleD: "triple P m Q \<Longrightarrow> P w \<Longrightarrow> Q (fst (m w)) (snd (m w))"
  by (simp add: triple_def)

lemma preserves_triple: "triple P m (\<lambda>_. P) \<Longrightarrow> preserves P m"
  by (simp add: triple_def preserves_def)

lemma triple_bind:
  assumes m: "triple P m R"
    and thrown: "\<And>e w. R (Inl e) w \<Longrightarrow> Q (Inl e) w"
    and f: "\<And>x. triple (R (Inr x)) (f x) Q"
  shows "triple P (io_bind m f) Q"
proof (rule tripleI)
  fix w assume P: "P w"
  show "Q (fst (io_bind m f w)) (snd (io_bind m f w))"
  proof (cases rule: io_result_cases [of m w])
    case (throws e w')
    with tripleD [OF m P] have "R (Inl e) w'" by simp
    with throws show ?thesis by (simp add: io_bind_Inl thrown)
  next
    case (returns x w')
    with tripleD [OF m P] have "R (Inr x) w'" by simp
    from tripleD [OF f this] returns show ?thesis by (simp add: io_bind_Inr)
  qed
qed

subsection \<open>One valuation\<close>

lemma redis_call_run:
  "redis_call op w =
     (if throws_next (redis_faults w) then (Inl StoreError, w\<lparr>redis_faults := tl (redis_faults w)\<rparr>)
      else (Inr (fst (op (w\<lparr>redis_faults := tl (redis_faults w)\<rparr>))),
            snd (op (w\<lparr>redis_faults := tl (redis_faults w)\<rparr>))))"
  by (simp add: redis_call_def Let_def case_prod_beta)

lemma fetchEngagement_run:
  "\<exists>s. fetchEngagement meme w = (Inr s, w)
     \<and> (s = js_or_num (engagementScore meme) 10 \<or> (\<exists>post. s = engagementFromPost meme post))"
  by (auto simp: fetchEngagement_def Let_def io_bind_def io_catch_def reddit_getPostById_def
      split: option.splits)

lemma fetchEngagement_faults [simp]:
  "fst (fetchEngagement meme (w\<lparr>redis_faults := fs\<rparr>)) = fst (fetchEngagement meme w)"
  by (auto simp: fetchEngagement_def Let_def io_bind_def io_catch_def reddit_getPostById_def
      split: option.splits)

lemma redis_get_meme_run:
  "redis_get_meme k w =
     (if throws_next (redis_faults w) then Inl StoreError else Inr (memes w k),
      w\<lparr>redis_faults := tl (redis_faults w)\<rparr>)"
  by (simp add: redis_get_meme_def redis_call_run)

lemma redis_set_meme_run:
  "redis_set_meme k m w =
     (if throws_next (redis_faults w) then (Inl StoreError, w\<lparr>redis_faults := tl (redis_faults w)\<rparr>)
      else (Inr (), w\<lparr>memes := (memes w)(k \<mapsto> m), redis_faults := tl (redis_faults w)\<rparr>))"
  by (simp add: redis_set_meme_def redis_call_run)

lemma calculateMemeValue_throws:
  "throws_next (redis_faults w) \<Longrightarrow>
   calculateMemeValue mid now w = (Inl StoreError, w\<lparr>redis_faults := tl (redis_faults w)\<rparr>)"
  by (simp add: calculateMemeValue_def io_bind_def redis_get_meme_run)

lemma calculateMemeValue_missing:
  "\<not> throws_next (redis_faults w) \<Longrightarrow> memes w mid = None \<Longrightarrow>
   calculateMemeValue mid now w = (Inl (MemeNotFound mid), w\<lparr>redis_faults := tl (redis_faults w)\<rparr>)"
  by (simp add: calculateMemeValue_def io_bind_def redis_get_meme_run)

lemma calculateMemeValue_found:
  assumes "\<not> throws_next (redis_faults w)" and "memes w mid = Some meme"
  shows "\<exists>s. fst (fetchEngagement meme w) = Inr s
           \<and> calculateMemeValue mid now w =
               (Inr (makeValuation mid now meme s), w\<lparr>redis_faults := tl (redis_faults w)\<rparr>)"
proof -
  let ?w1 = "w\<lparr>redis_faults := tl (redis_faults w)\<rparr>"
  from fetchEngagement_run [of meme ?w1] obtain s where s: "fetchEngagement meme ?w1 = (Inr s, ?w1)"
    by blast
  then have "fst (fetchEngagement meme ?w1) = Inr s" by simp
  then have "fst (fetchEngagement meme w) = Inr s" by simp
  moreover from assms s have "calculateMemeValue mid now w = (Inr (makeValuation mid now meme s), ?w1)"
    by (simp add: calculateMemeValue_def io_bind_def redis_get_meme_run)
  ultimately show ?thesis by blast
qed

lemma calculateMemeValue_world:
  "snd (calculateMemeValue mid now w) = w\<lparr>redis_faults := tl (redis_faults w)\<rparr>"
proof (cases "throws_next (redis_faults w)")
  case True
  then show ?thesis by (simp add: calculateMemeValue_throws)
next
  case False
  show ?thesis
  proof (cases "memes w mid")
    case None
    with False show ?thesis by (simp add: calculateMemeValue_missing)
  next
    case (Some meme)
    from calculateMemeValue_found [OF False Some, of now] show ?thesis by auto
  qed
qed

lemma calculateMemeValue_InrD:
  assumes "calculateMemeValue mid now w = (Inr v, w')"
  obtains meme s where "memes w mid = Some meme" and "fst (fetchEngagement meme w) = Inr s"
    and "v = makeValuation mid now meme s" and "\<not> throws_next (redis_faults w)"
proof (cases "throws_next (redis_faults w)")
  case True
  with assms show ?thesis by (simp add: calculateMemeValue_throws)
next
  case False
  show ?thesis
  proof (cases "memes w mid")
    case None
    with False assms show ?thesis by (simp add: calculateMemeValue_missing)
  next
    case (Some meme)
    from calculateMemeValue_found [OF False Some, of now] assms that [OF Some _ _ False]
    show ?thesis by auto
  qed
qed


subsection \<open>One recompute pass\<close>

lemma preserves_redis_set_meme:
  assumes "\<And>w fs. P w \<Longrightarrow> P (w\<lparr>redis_faults := fs\<rparr>)"
    and "\<And>w. P w \<Longrightarrow> P (w\<lparr>memes := (memes w)(k \<mapsto> m)\<rparr>)"
  shows "preserves P (redis_set_meme k m)"
  unfolding redis_set_meme_def by (rule preserves_redis_call) (simp_all add: assms)

lemma preserves_updateMarketHistory:
  assumes "\<And>w fs. P w \<Longrightarrow> P (w\<lparr>sink_faults := fs\<rparr>)"
    and "\<And>w h. P w \<Longrightarrow> P (w\<lparr>market_history := h\<rparr>)"
  shows "preserves P (updateMarketHistory v)"
proof (rule preservesI)
  fix w assume "P w"
  then have "P (w\<lparr>sink_faults := tl (sink_faults w)\<rparr>)" by (rule assms(1))
  from this assms(2) [OF this] show "P (snd (updateMarketHistory v w))"
    by (simp add: updateMarketHistory_def Let_def)
qed

lemma preserves_scheduler_runAfter:
  assumes "\<And>w fs. P w \<Longrightarrow> P (w\<lparr>sched_faults := fs\<rparr>)"
    and "\<And>w js. P w \<Longrightarrow> P (w\<lparr>jobs := js\<rparr>)"
  shows "preserves P (scheduler_runAfter d name mid)"
proof (rule preservesI)
  fix w assume "P w"
  then have "P (w\<lparr>sched_faults := tl (sched_faults w)\<rparr>)" by (rule assms(1))
  from this assms(2) [OF this] show "P (snd (scheduler_runAfter d name mid w))"
    by (simp add: scheduler_runAfter_def Let_def)
qed

lemma scheduler_runAfter_accepts:
  "\<not> throws_next (sched_faults w) \<Longrightarrow>
   scheduler_runAfter d name mid w =
     (Inr (), w\<lparr>sched_faults := tl (sched_faults w),
               jobs := jobs w @ [\<lparr>delay = d, jobName = name, payload = mid\<rparr>]\<rparr>)"
  by (simp add: scheduler_runAfter_def Let_def)

subsection \<open>The commit of a valuation\<close>

lemma commitValuation_history:
  "priceHistory (commitValuation meme v) =
     drop (length (priceHistory meme) + 1 - 24)
       (priceHistory meme @ [\<lparr>timestamp = valTimestamp v, price = currentPrice v\<rparr>])"
proof -
  let ?h = "priceHistory meme @ [\<lparr>timestamp = valTimestamp v, price = currentPrice v\<rparr>]"
  have "js_slice_from ?h (int (length ?h) - 24) = drop (length ?h - 24) ?h" if "24 < length ?h"
  proof -
    from that have "int (length ?h) - 24 = int (length ?h - 24)" by simp
    then show ?thesis
      unfolding js_slice_from_def js_slice_def Let_def by (simp del: of_nat_diff)
  qed
  then show ?thesis
    by (simp add: commitValuation_def Let_def)
qed

lemma commitValuation_length: "length (priceHistory (commitValuation meme v)) \<le> 24"
  by (simp add: commitValuation_history)

lemma commitValuation_last:
  "last (priceHistory (commitValuation meme v)) = \<lparr>timestamp = valTimestamp v, price = currentPrice v\<rparr>"
  by (simp add: commitValuation_history)

lemma commitValuation_score [simp]:
  "engagementScore (commitValuation meme v) = valEngagementScore v"
  by (simp add: commitValuation_def Let_def)

lemma take3_no_throw:
  assumes "True \<notin> set (take 3 fs)"
  shows "\<not> throws_next fs" and "\<not> throws_next (tl fs)" and "\<not> throws_next (tl (tl fs))"
  using assms
  by (cases fs; cases "tl fs"; cases "tl (tl fs)"; simp add: throws_next_def numeral_3_eq_3)+

lemma update_commits:
  assumes meme: "memes w mid = Some meme"
    and ok: "True \<notin> set (take 3 (redis_faults w))"
  shows "\<exists>v. fst (calculateMemeValue mid now w) = Inr v
           \<and> memes (snd (updateMemeValuation mid now w)) = (memes w)(mid \<mapsto> commitValuation meme v)"
proof -
  let ?h = "\<lambda>error::error. scheduler_runAfter 3600 ''updateMemeValuation'' mid"
  let ?tail = "\<lambda>v. io_bind (updateMarketHistory v) (\<lambda>_. scheduler_runAfter 3600 ''updateMemeValuation'' mid)"
  let ?w1 = "w\<lparr>redis_faults := tl (redis_faults w)\<rparr>"
  let ?w2 = "?w1\<lparr>redis_faults := tl (redis_faults ?w1)\<rparr>"
  note no = take3_no_throw [OF ok]
  from calculateMemeValue_found [OF no(1) meme, of now] obtain s
    where calc: "calculateMemeValue mid now w = (Inr (makeValuation mid now meme s), ?w1)"
    by blast
  define v where "v = makeValuation mid now meme s"
  define w3 where "w3 = ?w2\<lparr>memes := (memes ?w2)(mid \<mapsto> commitValuation meme v),
                               redis_faults := tl (redis_faults ?w2)\<rparr>"
  have get: "redis_get_meme mid ?w1 = (Inr (Some meme), ?w2)"
    using no(2) meme by (simp add: redis_get_meme_run)
  have set: "redis_set_meme mid (commitValuation meme v) ?w2 = (Inr (), w3)"
    using no(3) by (simp add: redis_set_meme_run w3_def)
  have s1: "updateMemeValuation mid now w =
      io_catch (io_bind (redis_get_meme mid) (\<lambda>memeJson.
        case memeJson of None \<Rightarrow> io_throw (MemeNotFound mid)
        | Some meme \<Rightarrow> io_bind (redis_set_meme mid (commitValuation meme v)) (\<lambda>_. ?tail v))) ?h ?w1"
    unfolding updateMemeValuation_def v_def
    by (rule io_catch_bind_Inr [where m = "calculateMemeValue mid now", OF calc])
  have s2: "io_catch (io_bind (redis_get_meme mid) (\<lambda>memeJson.
        case memeJson of None \<Rightarrow> io_throw (MemeNotFound mid)
        | Some meme \<Rightarrow> io_bind (redis_set_meme mid (commitValuation meme v)) (\<lambda>_. ?tail v))) ?h ?w1 =
      io_catch (io_bind (redis_set_meme mid (commitValuation meme v)) (\<lambda>_. ?tail v)) ?h ?w2"
    by (simp only: io_catch_bind_Inr [where m = "redis_get_meme mid", OF get] option.case)
  have s3: "io_catch (io_bind (redis_set_meme mid (commitValuation meme v)) (\<lambda>_. ?tail v)) ?h ?w2 =
      io_catch (?tail v) ?h w3"
    by (rule io_catch_bind_Inr [where m = "redis_set_meme mid (commitValuation meme v)", OF set])
  have "updateMemeValuation mid now w = io_catch (?tail v) ?h w3"
    by (simp only: s1 s2 s3)
  moreover have "preserves (\<lambda>w'. memes w' = memes w3) (io_catch (?tail v) ?h)"
    by (intro preserves_catch preserves_bind preserves_updateMarketHistory
        preserves_scheduler_runAfter) simp_all
  then have "memes (snd (io_catch (?tail v) ?h w3)) = memes w3"
    by (rule preservesD) simp
  ultimately have "memes (snd (updateMemeValuation mid now w)) = (memes w)(mid \<mapsto> commitValuation meme v)"
    by (simp add: w3_def)
  with calc show ?thesis by (auto simp: v_def)
qed


section \<open>Properties of the valuation algorithm\<close>

lemma calculatePriceChange_bounds:
  "- 0.3 \<le> calculatePriceChange now meme s \<and> calculatePriceChange now meme s \<le> 0.3"
  by (simp add: calculatePriceChange_def)

lemma newPrice_floor: "0.1 \<le> newPrice meme pct"
  by (simp add: newPrice_def)


lemma makeValuation_fields:
  "priceChangePercent (makeValuation mid now meme s) = calculatePriceChange now meme s"
  "currentPrice (makeValuation mid now meme s) = newPrice meme (calculatePriceChange now meme s)"
  by (simp_all add: makeValuation_def Let_def)

text \<open>
  C1: for every asset whose stored score is at least 10, every new score, every
  non-negative age and trade volume, the price change of \<^verbatim>\<open>calculatePriceChange\<close>, which
  is the \<^verbatim>\<open>priceChangePercent\<close> of the valuation, lies between \<open>-0.3\<close> and \<open>0.3\<close>, and
  the new price of the valuation, \<open>max 0.1 (currentPrice * (1 + priceChangePercent))\<close>,
  is at least \<open>0.1\<close>.
\<close>

theorem price_change_bounded:
  assumes "10 \<le> engagementScore meme"
    and "createdAt meme \<le> now"
    and "0 \<le> tradeVolume meme"
  shows "- 0.3 \<le> calculatePriceChange now meme newScore
       \<and> calculatePriceChange now meme newScore \<le> 0.3
       \<and> priceChangePercent (makeValuation mid now meme newScore)
           = calculatePriceChange now meme newScore
       \<and> currentPrice (makeValuation mid now meme newScore)
           = max 0.1 (currentSharePrice meme * (1 + calculatePriceChange now meme newScore))
       \<and> 0.1 \<le> currentPrice (makeValuation mid now meme newScore)"
  using calculatePriceChange_bounds [of now meme newScore]
    newPrice_floor [of meme "calculatePriceChange now meme newScore"]
  by (simp add: makeValuation_fields) (simp add: newPrice_def)

theorem price_change_bounded_witness:
  "10 \<le> engagementScore example_meme
   \<and> createdAt example_meme \<le> 86400000
   \<and> 0 \<le> tradeVolume example_meme
   \<and> - 0.3 \<le> calculatePriceChange 86400000 example_meme 20
   \<and> calculatePriceChange 86400000 example_meme 20 \<le> 0.3
   \<and> 0.1 \<le> currentPrice (makeValuation ''meme_0_7'' 86400000 example_meme 20)"
  using price_change_bounded [of example_meme 86400000 20 "''meme_0_7''"]
  by (simp add: example_meme_def newMemeData_def)

text \<open>
  C5, as amended: the score change divides by the stored score, except that a stored
  \<open>0\<close> is replaced by \<open>10\<close>: with \<open>d\<close> that divisor, \<^verbatim>\<open>scoreChangePercent\<close> is
  \<open>(newScore - d) / d\<close> and the price change is the clamp of its product with the two
  factors. The divisor is never zero, and it is at least 10 when the stored score is \<open>0\<close>
  or at least 10. A stored score that is negative or strictly between 0 and 10 is the
  divisor as it is.
\<close>

theorem prev_score_divisor:
  "(let d = (if engagementScore meme = 0 then 10 else engagementScore meme) in
      prevEngagementScore meme = d
    \<and> scoreChangePercent meme newScore = (newScore - d) / d
    \<and> calculatePriceChange now meme newScore =
        max (- 0.3) (min 0.3 ((newScore - d) / d * volatilityFactor now meme * volumeFactor meme))
    \<and> d \<noteq> 0
    \<and> (engagementScore meme = 0 \<or> 10 \<le> engagementScore meme \<longrightarrow> 10 \<le> d))"
  by (simp add: Let_def calculatePriceChange_def rawPriceChange_def scoreChangePercent_def
      prevEngagementScore_def js_or_num_def)

theorem prev_score_divisor_witness:
  "engagementScore (example_meme\<lparr>engagementScore := 0\<rparr>) = 0
   \<and> prevEngagementScore (example_meme\<lparr>engagementScore := 0\<rparr>) = 10
   \<and> scoreChangePercent (example_meme\<lparr>engagementScore := 0\<rparr>) 20 = (20 - 10) / 10
   \<and> calculatePriceChange 0 (example_meme\<lparr>engagementScore := 0\<rparr>) 20 =
       max (- 0.3) (min 0.3 ((20 - 10) / 10 * volatilityFactor 0 (example_meme\<lparr>engagementScore := 0\<rparr>)
                               * volumeFactor (example_meme\<lparr>engagementScore := 0\<rparr>)))"
  using prev_score_divisor [of "example_meme\<lparr>engagementScore := 0\<rparr>" 20 0]
  by (simp add: Let_def)

text \<open>
  The claim as stated fails: a stored score of 5 is the divisor, so the score change from
  5 to 10 is \<open>1\<close> and not the \<open>0\<close> a floor at 10 would give.
\<close>

theorem prev_score_not_floored:
  "prevEngagementScore (example_meme\<lparr>engagementScore := 5\<rparr>) = 5
   \<and> \<not> 10 \<le> prevEngagementScore (example_meme\<lparr>engagementScore := 5\<rparr>)
   \<and> scoreChangePercent (example_meme\<lparr>engagementScore := 5\<rparr>) 10 = 1"
  by (simp add: scoreChangePercent_def prevEngagementScore_def js_or_num_def)

section \<open>Properties of the recompute loop\<close>

lemma take3_throws_iff:
  "True \<notin> set (take 3 fs) \<longleftrightarrow>
     \<not> throws_next fs \<and> \<not> throws_next (tl fs) \<and> \<not> throws_next (tl (tl fs))"
  by (cases fs; cases "tl fs"; cases "tl (tl fs)") (auto simp: throws_next_def numeral_3_eq_3)

lemma updateMarketHistory_run:
  "updateMarketHistory v w =
     (if throws_next (sink_faults w) then (Inl SinkError, w\<lparr>sink_faults := tl (sink_faults w)\<rparr>)
      else (Inr (), w\<lparr>sink_faults := tl (sink_faults w), market_history := market_history w @ [v]\<rparr>))"
  by (simp add: updateMarketHistory_def Let_def)

text \<open>
  Where a pass stands when it first calls the scheduler: in the handler, having failed
  before line 232, or at line 232 with the handler still to come. Jobs and scheduler are
  untouched until then.
\<close>

lemma update_run:
  fixes mid now w
  defines "sched \<equiv> scheduler_runAfter 3600 ''updateMemeValuation'' mid"
  obtains (early) w1 where "\<not> reaches_scheduling mid w"
      and "updateMemeValuation mid now w = sched w1"
      and "jobs w1 = jobs w" and "sched_faults w1 = sched_faults w"
    | (reached) w1 where "reaches_scheduling mid w"
      and "updateMemeValuation mid now w = io_catch sched (\<lambda>error. sched) w1"
      and "jobs w1 = jobs w" and "sched_faults w1 = sched_faults w"
proof -
  let ?h = "\<lambda>error::error. sched"
  let ?tail = "\<lambda>v. io_bind (updateMarketHistory v) (\<lambda>_. sched)"
  let ?store = "\<lambda>meme v. io_bind (redis_set_meme mid (commitValuation meme v)) (\<lambda>_. ?tail v)"
  let ?rest = "\<lambda>v. io_bind (redis_get_meme mid) (\<lambda>memeJson.
        case memeJson of None \<Rightarrow> io_throw (MemeNotFound mid) | Some meme \<Rightarrow> ?store meme v)"
  let ?rf = "redis_faults w"
  let ?w1 = "w\<lparr>redis_faults := tl ?rf\<rparr>"
  let ?w2 = "w\<lparr>redis_faults := tl (tl ?rf)\<rparr>"
  let ?w3 = "w\<lparr>redis_faults := tl (tl (tl ?rf))\<rparr>"
  have start: "updateMemeValuation mid now w = io_catch (io_bind (calculateMemeValue mid now) ?rest) ?h w"
    unfolding updateMemeValuation_def sched_def by (rule refl)
  show thesis
  proof (cases "throws_next ?rf")
    case True
    have "io_catch (io_bind (calculateMemeValue mid now) ?rest) ?h w = sched ?w1"
      by (rule io_catch_bind_Inl [where m = "calculateMemeValue mid now",
            OF calculateMemeValue_throws [OF True]])
    with start have "updateMemeValuation mid now w = sched ?w1" by (simp only:)
    moreover from True have "\<not> reaches_scheduling mid w"
      by (simp add: reaches_scheduling_def take3_throws_iff)
    ultimately show ?thesis by (intro early [of ?w1]) simp_all
  next
    case first: False
    show ?thesis
    proof (cases "memes w mid")
      case None
      have "io_catch (io_bind (calculateMemeValue mid now) ?rest) ?h w = sched ?w1"
        by (rule io_catch_bind_Inl [where m = "calculateMemeValue mid now",
              OF calculateMemeValue_missing [OF first None]])
      with start have "updateMemeValuation mid now w = sched ?w1" by (simp only:)
      moreover from None have "\<not> reaches_scheduling mid w"
        by (simp add: reaches_scheduling_def)
      ultimately show ?thesis by (intro early [of ?w1]) simp_all
    next
      case (Some meme)
      from calculateMemeValue_found [OF first Some, of now] obtain s
        where calc: "calculateMemeValue mid now w = (Inr (makeValuation mid now meme s), ?w1)"
        by blast
      define v where "v = makeValuation mid now meme s"
      have "io_catch (io_bind (calculateMemeValue mid now) ?rest) ?h w = io_catch (?rest v) ?h ?w1"
        unfolding v_def
        by (rule io_catch_bind_Inr [where m = "calculateMemeValue mid now", OF calc])
      with start have s1: "updateMemeValuation mid now w = io_catch (?rest v) ?h ?w1" by (simp only:)
      show ?thesis
      proof (cases "throws_next (tl ?rf)")
        case True
        then have "redis_get_meme mid ?w1 = (Inl StoreError, ?w2)"
          by (simp add: redis_get_meme_run)
        then have "io_catch (?rest v) ?h ?w1 = sched ?w2"
          by (rule io_catch_bind_Inl [where m = "redis_get_meme mid"])
        with s1 have "updateMemeValuation mid now w = sched ?w2" by (simp only:)
        moreover from True have "\<not> reaches_scheduling mid w"
          by (simp add: reaches_scheduling_def take3_throws_iff)
        ultimately show ?thesis by (intro early [of ?w2]) simp_all
      next
        case second: False
        with Some have "redis_get_meme mid ?w1 = (Inr (Some meme), ?w2)"
          by (simp add: redis_get_meme_run)
        then have "io_catch (?rest v) ?h ?w1 =
            io_catch (case Some meme of None \<Rightarrow> io_throw (MemeNotFound mid)
                      | Some meme \<Rightarrow> ?store meme v) ?h ?w2"
          by (rule io_catch_bind_Inr [where m = "redis_get_meme mid"])
        with s1 have s2: "updateMemeValuation mid now w = io_catch (?store meme v) ?h ?w2"
          by (simp only: option.case)
        show ?thesis
        proof (cases "throws_next (tl (tl ?rf))")
          case True
          then have "redis_set_meme mid (commitValuation meme v) ?w2 = (Inl StoreError, ?w3)"
            by (simp add: redis_set_meme_run)
          then have "io_catch (?store meme v) ?h ?w2 = sched ?w3"
            by (rule io_catch_bind_Inl [where m = "redis_set_meme mid (commitValuation meme v)"])
          with s2 have "updateMemeValuation mid now w = sched ?w3" by (simp only:)
          moreover from True have "\<not> reaches_scheduling mid w"
            by (simp add: reaches_scheduling_def take3_throws_iff)
          ultimately show ?thesis by (intro early [of ?w3]) simp_all
        next
          case third: False
          define w3 where "w3 = w\<lparr>memes := (memes w)(mid \<mapsto> commitValuation meme v),
                                  redis_faults := tl (tl (tl ?rf))\<rparr>"
          from third have "redis_set_meme mid (commitValuation meme v) ?w2 = (Inr (), w3)"
            by (simp add: redis_set_meme_run w3_def)
          then have "io_catch (?store meme v) ?h ?w2 = io_catch (?tail v) ?h w3"
            by (rule io_catch_bind_Inr [where m = "redis_set_meme mid (commitValuation meme v)"])
          with s2 have s3: "updateMemeValuation mid now w = io_catch (?tail v) ?h w3" by (simp only:)
          have w3: "jobs w3 = jobs w" "sched_faults w3 = sched_faults w" "sink_faults w3 = sink_faults w"
            by (simp_all add: w3_def)
          show ?thesis
          proof (cases "throws_next (sink_faults w)")
            case True
            define w4 where "w4 = w3\<lparr>sink_faults := tl (sink_faults w3)\<rparr>"
            from True w3 have "updateMarketHistory v w3 = (Inl SinkError, w4)"
              by (simp add: updateMarketHistory_run w4_def)
            then have "io_catch (?tail v) ?h w3 = sched w4"
              by (rule io_catch_bind_Inl [where m = "updateMarketHistory v"])
            with s3 have "updateMemeValuation mid now w = sched w4" by (simp only:)
            moreover from True have "\<not> reaches_scheduling mid w"
              by (simp add: reaches_scheduling_def)
            ultimately show ?thesis using w3 by (intro early [of w4]) (simp_all add: w4_def)
          next
            case sink: False
            define w4 where "w4 = w3\<lparr>sink_faults := tl (sink_faults w3),
                                       market_history := market_history w3 @ [v]\<rparr>"
            from sink w3 have "updateMarketHistory v w3 = (Inr (), w4)"
              by (simp add: updateMarketHistory_run w4_def)
            then have "io_catch (?tail v) ?h w3 = io_catch sched ?h w4"
              by (rule io_catch_bind_Inr [where m = "updateMarketHistory v"])
            with s3 have "updateMemeValuation mid now w = io_catch sched ?h w4" by (simp only:)
            moreover from first second third sink Some have "reaches_scheduling mid w"
              by (simp add: reaches_scheduling_def take3_throws_iff)
            ultimately show ?thesis using w3 by (intro reached [of w4]) (simp_all add: w4_def)
          qed
        qed
      qed
    qed
  qed
qed


lemma scheduler_runAfter_throws:
  "throws_next (sched_faults w) \<Longrightarrow>
   scheduler_runAfter d name mid w = (Inl SchedulerError, w\<lparr>sched_faults := tl (sched_faults w)\<rparr>)"
  by (simp add: scheduler_runAfter_def Let_def)

text \<open>
  C4, as amended: no error of load or commit leaves a recompute pass; the only error
  that can is the scheduler's own. The pass ends in one of two ways: it returns normally
  and has scheduled exactly one job, \<^verbatim>\<open>updateMemeValuation\<close> for the same id after 3600
  seconds, or it throws the scheduler's error and has scheduled nothing. It returns
  normally exactly when the scheduler accepts its first call of the pass, or the pass
  had reached its own scheduling after a commit and the scheduler accepts the second
  call, the one of the handler.
\<close>

theorem recompute_rearms_while_scheduler_accepts:
  "((fst (updateMemeValuation mid now w) = Inr ()
       \<and> jobs (snd (updateMemeValuation mid now w)) =
           jobs w @ [\<lparr>delay = 3600, jobName = ''updateMemeValuation'', payload = mid\<rparr>])
     \<or> (fst (updateMemeValuation mid now w) = Inl SchedulerError
       \<and> jobs (snd (updateMemeValuation mid now w)) = jobs w))
   \<and> (fst (updateMemeValuation mid now w) = Inr () \<longleftrightarrow>
        \<not> throws_next (sched_faults w)
        \<or> (reaches_scheduling mid w \<and> \<not> throws_next (tl (sched_faults w))))"
proof -
  let ?sched = "scheduler_runAfter 3600 ''updateMemeValuation'' mid"
  show ?thesis
  proof (cases rule: update_run [of mid w now])
    case (early w1)
    show ?thesis
    proof (cases "throws_next (sched_faults w)")
      case True
      with early have "throws_next (sched_faults w1)" by simp
      from scheduler_runAfter_throws [OF this] early True show ?thesis by simp
    next
      case False
      with early have "\<not> throws_next (sched_faults w1)" by simp
      from scheduler_runAfter_accepts [OF this] early False show ?thesis by simp
    qed
  next
    case (reached w1)
    show ?thesis
    proof (cases "throws_next (sched_faults w)")
      case False
      with reached have "\<not> throws_next (sched_faults w1)" by simp
      from scheduler_runAfter_accepts [OF this, of 3600 "''updateMemeValuation''" mid]
      have "io_catch ?sched (\<lambda>error. ?sched) w1 =
          (Inr (), w1\<lparr>sched_faults := tl (sched_faults w1),
                      jobs := jobs w1 @ [\<lparr>delay = 3600, jobName = ''updateMemeValuation'', payload = mid\<rparr>]\<rparr>)"
        by (rule io_catch_Inr [where m = ?sched])
      with reached False show ?thesis by simp
    next
      case True
      let ?w2 = "w1\<lparr>sched_faults := tl (sched_faults w1)\<rparr>"
      from True reached have "throws_next (sched_faults w1)" by simp
      from scheduler_runAfter_throws [OF this, of 3600 "''updateMemeValuation''" mid]
      have retry: "io_catch ?sched (\<lambda>error. ?sched) w1 = ?sched ?w2"
        by (rule io_catch_Inl [where m = ?sched])
      show ?thesis
      proof (cases "throws_next (tl (sched_faults w))")
        case second: True
        with reached have "throws_next (sched_faults ?w2)" by simp
        from scheduler_runAfter_throws [OF this, of 3600 "''updateMemeValuation''" mid]
          retry reached True second
        show ?thesis by simp
      next
        case second: False
        with reached have "\<not> throws_next (sched_faults ?w2)" by simp
        from scheduler_runAfter_accepts [OF this, of 3600 "''updateMemeValuation''" mid]
          retry reached True second
        show ?thesis by simp
      qed
    qed
  qed
qed

theorem recompute_rearms_while_scheduler_accepts_witness:
  "reaches_scheduling ''meme_0_7'' (example_world\<lparr>sched_faults := [True, False]\<rparr>)
   \<and> \<not> throws_next (tl (sched_faults (example_world\<lparr>sched_faults := [True, False]\<rparr>)))
   \<and> fst (updateMemeValuation ''meme_0_7'' 3600000 (example_world\<lparr>sched_faults := [True, False]\<rparr>)) = Inr ()
   \<and> jobs (snd (updateMemeValuation ''meme_0_7'' 3600000 (example_world\<lparr>sched_faults := [True, False]\<rparr>))) =
       [\<lparr>delay = 3600, jobName = ''updateMemeValuation'', payload = ''meme_0_7''\<rparr>]
   \<and> \<not> throws_next (sched_faults (empty_world\<lparr>redis_faults := [False, True]\<rparr>))
   \<and> fst (updateMemeValuation ''meme_0_7'' 3600000 (empty_world\<lparr>redis_faults := [False, True]\<rparr>)) = Inr ()
   \<and> jobs (snd (updateMemeValuation ''meme_0_7'' 3600000 (empty_world\<lparr>redis_faults := [False, True]\<rparr>))) =
       [\<lparr>delay = 3600, jobName = ''updateMemeValuation'', payload = ''meme_0_7''\<rparr>]"
proof -
  have a: "reaches_scheduling ''meme_0_7'' (example_world\<lparr>sched_faults := [True, False]\<rparr>)"
    and b: "\<not> throws_next (tl (sched_faults (example_world\<lparr>sched_faults := [True, False]\<rparr>)))"
    and c: "\<not> throws_next (sched_faults (empty_world\<lparr>redis_faults := [False, True]\<rparr>))"
    and d: "jobs (example_world\<lparr>sched_faults := [True, False]\<rparr>) = []"
      "jobs (empty_world\<lparr>redis_faults := [False, True]\<rparr>) = []"
    by (simp_all add: reaches_scheduling_def example_world_def empty_world_def throws_next_def)
  from recompute_rearms_while_scheduler_accepts
      [of "''meme_0_7''" 3600000 "example_world\<lparr>sched_faults := [True, False]\<rparr>"]
    recompute_rearms_while_scheduler_accepts
      [of "''meme_0_7''" 3600000 "empty_world\<lparr>redis_faults := [False, True]\<rparr>"]
    a b c d
  show ?thesis by auto
qed

text \<open>
  The claim as stated fails: when the scheduler throws at both calls, the pass commits
  the valuation (the stored history has its second sample) and then throws the
  scheduler's error to its caller, leaving no job. Nothing will run the loop again.
\<close>

theorem commit_then_loop_stops:
  "fst (updateMemeValuation ''meme_0_7'' 3600000 (example_world\<lparr>sched_faults := [True, True]\<rparr>))
     = Inl SchedulerError
   \<and> jobs (snd (updateMemeValuation ''meme_0_7'' 3600000 (example_world\<lparr>sched_faults := [True, True]\<rparr>))) = []
   \<and> map_option (length \<circ> priceHistory)
       (memes (snd (updateMemeValuation ''meme_0_7'' 3600000 (example_world\<lparr>sched_faults := [True, True]\<rparr>)))
          ''meme_0_7'') = Some 2"
proof -
  let ?w = "example_world\<lparr>sched_faults := [True, True]\<rparr>"
  let ?sched = "scheduler_runAfter 3600 ''updateMemeValuation'' ''meme_0_7''"
  have stored: "memes ?w ''meme_0_7'' = Some example_meme"
    and ok: "True \<notin> set (take 3 (redis_faults ?w))"
    by (simp_all add: example_world_def empty_world_def)
  from update_commits [OF stored ok, of 3600000] obtain v
    where "memes (snd (updateMemeValuation ''meme_0_7'' 3600000 ?w)) =
        (memes ?w)(''meme_0_7'' \<mapsto> commitValuation example_meme v)"
    by blast
  then have history: "map_option (length \<circ> priceHistory)
       (memes (snd (updateMemeValuation ''meme_0_7'' 3600000 ?w)) ''meme_0_7'') = Some 2"
    by (simp add: commitValuation_history example_meme_def newMemeData_def)
  have "fst (updateMemeValuation ''meme_0_7'' 3600000 ?w) = Inl SchedulerError
      \<and> jobs (snd (updateMemeValuation ''meme_0_7'' 3600000 ?w)) = []"
  proof (cases rule: update_run [of "''meme_0_7''" ?w 3600000])
    case (early w1)
    from early(1) stored ok show ?thesis
      by (simp add: reaches_scheduling_def example_world_def empty_world_def throws_next_def)
  next
    case (reached w1)
    let ?w2 = "w1\<lparr>sched_faults := tl (sched_faults w1)\<rparr>"
    from reached have first: "throws_next (sched_faults w1)" and second: "throws_next (sched_faults ?w2)"
      and none: "jobs w1 = []"
      by (simp_all add: throws_next_def example_world_def empty_world_def)
    from scheduler_runAfter_throws [OF first, of 3600 "''updateMemeValuation''" "''meme_0_7''"]
    have "io_catch ?sched (\<lambda>error. ?sched) w1 = ?sched ?w2"
      by (rule io_catch_Inl [where m = ?sched])
    with scheduler_runAfter_throws [OF second, of 3600 "''updateMemeValuation''" "''meme_0_7''"]
      reached none
    show ?thesis by simp
  qed
  with history show ?thesis by simp
qed

lemma preserves_updateMemeValuation:
  assumes faults: "\<And>w fs. P w \<Longrightarrow> P (w\<lparr>redis_faults := fs\<rparr>)"
      "\<And>w fs. P w \<Longrightarrow> P (w\<lparr>sink_faults := fs\<rparr>)"
      "\<And>w fs. P w \<Longrightarrow> P (w\<lparr>sched_faults := fs\<rparr>)"
    and sink: "\<And>w h. P w \<Longrightarrow> P (w\<lparr>market_history := h\<rparr>)"
    and sched: "\<And>w js. P w \<Longrightarrow> P (w\<lparr>jobs := js\<rparr>)"
    and commit: "\<And>w meme v. P w \<Longrightarrow> P (w\<lparr>memes := (memes w)(mid \<mapsto> commitValuation meme v)\<rparr>)"
  shows "preserves P (updateMemeValuation mid now)"
  unfolding updateMemeValuation_def
  by (intro preserves_catch preserves_bind preserves_calculateMemeValue preserves_redis_get
      preserves_scheduler_runAfter)
     (auto split: option.splits intro!: preserves_throw preserves_bind preserves_redis_set_meme
       preserves_updateMarketHistory preserves_scheduler_runAfter assms)

lemma update_keeps_cap:
  "preserves (\<lambda>w. \<forall>m. memes w k = Some m \<longrightarrow> length (priceHistory m) \<le> 24)
     (updateMemeValuation mid now)"
  by (rule preserves_updateMemeValuation) (simp_all add: commitValuation_length)

lemma run_ticks_keeps_cap:
  "\<forall>m. memes w k = Some m \<longrightarrow> length (priceHistory m) \<le> 24 \<Longrightarrow>
   \<forall>m. memes (run_ticks ts w) k = Some m \<longrightarrow> length (priceHistory m) \<le> 24"
proof (induction ts arbitrary: w)
  case Nil
  then show ?case by simp
next
  case (Cons t ts)
  from preservesD [OF update_keeps_cap [of k "fst t" "snd t"], of w] Cons.prems
  have "\<forall>m. memes (snd (updateMemeValuation (fst t) (snd t) w)) k = Some m
          \<longrightarrow> length (priceHistory m) \<le> 24"
    by simp
  from Cons.IH [OF this] show ?case by simp
qed

text \<open>
  C3: a recompute pass that reaches its write commits the stored history with the new
  sample appended and cut to its last 24 entries: the stored history has at most 24
  entries, it is the old history followed by the new sample without the oldest entries
  that exceed 24, and the new sample is its last entry. The bound then holds after any
  further passes, committed or not.
\<close>

theorem price_history_capped:
  assumes "memes w mid = Some meme"
    and "True \<notin> set (take 3 (redis_faults w))"
  shows "\<exists>v m'. fst (calculateMemeValue mid now w) = Inr v
           \<and> memes (snd (updateMemeValuation mid now w)) mid = Some m'
           \<and> length (priceHistory m') \<le> 24
           \<and> priceHistory m' =
               drop (length (priceHistory meme) + 1 - 24)
                 (priceHistory meme @ [\<lparr>timestamp = valTimestamp v, price = currentPrice v\<rparr>])
           \<and> last (priceHistory m') = \<lparr>timestamp = valTimestamp v, price = currentPrice v\<rparr>
           \<and> (\<forall>ts m''. memes (run_ticks ts (snd (updateMemeValuation mid now w))) mid = Some m''
                  \<longrightarrow> length (priceHistory m'') \<le> 24)"
proof -
  from update_commits [OF assms, of now] obtain v
    where v: "fst (calculateMemeValue mid now w) = Inr v"
      and stored: "memes (snd (updateMemeValuation mid now w)) = (memes w)(mid \<mapsto> commitValuation meme v)"
    by blast
  let ?m = "commitValuation meme v"
  from stored have m: "memes (snd (updateMemeValuation mid now w)) mid = Some ?m" by simp
  then have "\<forall>m. memes (snd (updateMemeValuation mid now w)) mid = Some m
       \<longrightarrow> length (priceHistory m) \<le> 24"
    by (simp add: commitValuation_length)
  then have later: "\<forall>ts m''. memes (run_ticks ts (snd (updateMemeValuation mid now w))) mid = Some m''
       \<longrightarrow> length (priceHistory m'') \<le> 24"
    using run_ticks_keeps_cap by blast
  from v m commitValuation_length [of meme v] commitValuation_history [of meme v]
    commitValuation_last [of meme v] later
  show ?thesis by blast
qed


theorem price_history_capped_witness:
  "memes example_world ''meme_0_7'' = Some example_meme
   \<and> True \<notin> set (take 3 (redis_faults example_world))
   \<and> (\<exists>v m'. fst (calculateMemeValue ''meme_0_7'' 3600000 example_world) = Inr v
         \<and> memes (snd (updateMemeValuation ''meme_0_7'' 3600000 example_world)) ''meme_0_7'' = Some m'
         \<and> length (priceHistory m') \<le> 24
         \<and> priceHistory m' =
             [\<lparr>timestamp = 0, price = 10\<rparr>, \<lparr>timestamp = valTimestamp v, price = currentPrice v\<rparr>])"
proof -
  have "memes example_world ''meme_0_7'' = Some example_meme"
    and "True \<notin> set (take 3 (redis_faults example_world))"
    by (simp_all add: example_world_def empty_world_def)
  from this price_history_capped [OF this, of 3600000] show ?thesis
    by (simp add: example_meme_def newMemeData_def example_request_def) blast
qed

section \<open>What the valuation leaves alone\<close>

text \<open>
  C10: \<^verbatim>\<open>calculateMemeValue\<close> writes nothing: the assets, the indexes, the portfolios, the
  scheduled jobs and the market history are after the call what they were before it. The
  valuation reaches the store through \<^verbatim>\<open>updateMemeValuation\<close>, whose pass commits it into
  the stored asset.
\<close>

theorem valuation_writes_nothing:
  "memes (snd (calculateMemeValue mid now w)) = memes w
   \<and> meme_index (snd (calculateMemeValue mid now w)) = meme_index w
   \<and> category (snd (calculateMemeValue mid now w)) = category w
   \<and> portfolio (snd (calculateMemeValue mid now w)) = portfolio w
   \<and> jobs (snd (calculateMemeValue mid now w)) = jobs w
   \<and> market_history (snd (calculateMemeValue mid now w)) = market_history w
   \<and> (memes w mid = Some meme \<and> True \<notin> set (take 3 (redis_faults w)) \<longrightarrow>
        (\<exists>v. fst (calculateMemeValue mid now w) = Inr v
           \<and> memes (snd (updateMemeValuation mid now w)) mid = Some (commitValuation meme v)))"
proof -
  have "\<exists>v. fst (calculateMemeValue mid now w) = Inr v
           \<and> memes (snd (updateMemeValuation mid now w)) mid = Some (commitValuation meme v)"
    if "memes w mid = Some meme" and "True \<notin> set (take 3 (redis_faults w))"
    using update_commits [OF that, of now] by auto
  then show ?thesis by (simp add: calculateMemeValue_world)
qed

theorem valuation_writes_nothing_witness:
  "memes example_world ''meme_0_7'' = Some example_meme
   \<and> True \<notin> set (take 3 (redis_faults example_world))
   \<and> memes (snd (calculateMemeValue ''meme_0_7'' 3600000 example_world)) ''meme_0_7'' = Some example_meme
   \<and> (\<exists>v. fst (calculateMemeValue ''meme_0_7'' 3600000 example_world) = Inr v
         \<and> memes (snd (updateMemeValuation ''meme_0_7'' 3600000 example_world)) ''meme_0_7''
             = Some (commitValuation example_meme v))"
  using valuation_writes_nothing [of "''meme_0_7''" 3600000 example_world example_meme]
  by (simp add: example_world_def empty_world_def)


section \<open>Properties of the issuance\<close>

lemma preserves_redis_set_index:
  assumes "\<And>w fs. P w \<Longrightarrow> P (w\<lparr>redis_faults := fs\<rparr>)"
    and "\<And>w. P w \<Longrightarrow> P (w\<lparr>meme_index := Some ids\<rparr>)"
  shows "preserves P (redis_set_index ids)"
  unfolding redis_set_index_def by (rule preserves_redis_call) (simp_all add: assms)

lemma preserves_redis_set_category:
  assumes "\<And>w fs. P w \<Longrightarrow> P (w\<lparr>redis_faults := fs\<rparr>)"
    and "\<And>w. P w \<Longrightarrow> P (w\<lparr>category := (category w)(c \<mapsto> ids)\<rparr>)"
  shows "preserves P (redis_set_category c ids)"
  unfolding redis_set_category_def by (rule preserves_redis_call) (simp_all add: assms)

lemma preserves_redis_set_portfolio:
  assumes "\<And>w fs. P w \<Longrightarrow> P (w\<lparr>redis_faults := fs\<rparr>)"
    and "\<And>w. P w \<Longrightarrow> P (w\<lparr>portfolio := (portfolio w)(u \<mapsto> p)\<rparr>)"
  shows "preserves P (redis_set_portfolio u p)"
  unfolding redis_set_portfolio_def by (rule preserves_redis_call) (simp_all add: assms)

lemma preserves_add_to_categories:
  assumes "\<And>w fs. P w \<Longrightarrow> P (w\<lparr>redis_faults := fs\<rparr>)"
    and "\<And>w c. P w \<Longrightarrow> P (w\<lparr>category := c\<rparr>)"
  shows "preserves P (add_to_categories mid cs)"
proof (induction cs)
  case Nil
  show ?case unfolding add_to_categories.simps by (rule preserves_return)
next
  case (Cons c cs)
  show ?case
    unfolding add_to_categories.simps
    by (intro preserves_bind preserves_redis_get preserves_redis_set_category Cons.IH)
       (simp_all add: assms)
qed

lemma preserves_createMeme:
  assumes faults: "\<And>w fs. P w \<Longrightarrow> P (w\<lparr>redis_faults := fs\<rparr>)"
      "\<And>w fs. P w \<Longrightarrow> P (w\<lparr>sched_faults := fs\<rparr>)"
    and other: "\<And>w js. P w \<Longrightarrow> P (w\<lparr>jobs := js\<rparr>)"
      "\<And>w c. P w \<Longrightarrow> P (w\<lparr>category := c\<rparr>)"
      "\<And>w i. P w \<Longrightarrow> P (w\<lparr>meme_index := i\<rparr>)"
      "\<And>w p. P w \<Longrightarrow> P (w\<lparr>portfolio := p\<rparr>)"
    and meme: "\<And>w u a. P w \<Longrightarrow>
      P (w\<lparr>memes := (memes w)(newMemeId now rnd \<mapsto> (newMemeData req u now rnd)\<lparr>availableShares := a\<rparr>)\<rparr>)"
  shows "preserves P (createMeme req now rnd)"
proof -
  have meme0: "P (w\<lparr>memes := (memes w)(newMemeId now rnd \<mapsto> newMemeData req u now rnd)\<rparr>)"
    if "P w" for w u
    using meme [OF that, where u = u and a = "availableShares (newMemeData req u now rnd)"] by simp
  show ?thesis
    unfolding createMeme_def Let_def io_catch_rethrow
    by (intro preserves_bind preserves_reddit preserves_redis_set_meme preserves_redis_get
        preserves_redis_set_index preserves_add_to_categories preserves_redis_set_portfolio
        preserves_scheduler_runAfter preserves_return)
       (simp_all add: assms meme0)
qed

lemma createMeme_keeps_floor:
  "preserves (\<lambda>w. \<forall>m. memes w k = Some m \<longrightarrow> 10 \<le> engagementScore m) (createMeme req now rnd)"
  by (rule preserves_createMeme) (simp_all add: newMemeData_def)


lemma redis_call_InrD:
  assumes "redis_call op w = (Inr x, w')"
  shows "x = fst (op (w\<lparr>redis_faults := tl (redis_faults w)\<rparr>))"
    and "w' = snd (op (w\<lparr>redis_faults := tl (redis_faults w)\<rparr>))"
    and "\<not> throws_next (redis_faults w)"
  using assms by (simp_all add: redis_call_run split: if_splits)

lemma redis_set_meme_InrD:
  "redis_set_meme k m w = (Inr x, w') \<Longrightarrow>
   w' = w\<lparr>memes := (memes w)(k \<mapsto> m), redis_faults := tl (redis_faults w)\<rparr>"
  unfolding redis_set_meme_def by (drule redis_call_InrD(2)) simp

lemma redis_set_portfolio_InrD:
  "redis_set_portfolio u p w = (Inr x, w') \<Longrightarrow>
   w' = w\<lparr>portfolio := (portfolio w)(u \<mapsto> p), redis_faults := tl (redis_faults w)\<rparr>"
  unfolding redis_set_portfolio_def by (drule redis_call_InrD(2)) simp

lemma scheduler_runAfter_InrD:
  "scheduler_runAfter d name mid w = (Inr x, w') \<Longrightarrow>
   w' = w\<lparr>sched_faults := tl (sched_faults w),
          jobs := jobs w @ [\<lparr>delay = d, jobName = name, payload = mid\<rparr>]\<rparr>"
  by (simp add: scheduler_runAfter_def Let_def split: if_splits)

lemma reddit_getCurrentUser_InrD:
  "reddit_getCurrentUser w = (Inr u, w') \<Longrightarrow> current_user w = Some u \<and> w' = w"
  by (simp add: reddit_getCurrentUser_def split: option.splits)

text \<open>What a successful creation returns and leaves in the store.\<close>

lemma createMeme_InrD:
  assumes "createMeme req now rnd w = (Inr m, w')"
  shows "\<exists>u p. current_user w = Some u
           \<and> m = (newMemeData req u now rnd)\<lparr>availableShares := 1000 - 100\<rparr>
           \<and> memes w' (newMemeId now rnd) = Some m
           \<and> portfolio w' (user_id u) = Some p
           \<and> p (newMemeId now rnd) = Some \<lparr>shares = 100, averageBuyPrice = 0\<rparr>"
proof -
  from assms have run: "io_bind reddit_getCurrentUser (\<lambda>currentUser.
        io_bind (redis_set_meme (newMemeId now rnd) (newMemeData req currentUser now rnd)) (\<lambda>_.
        io_bind redis_get_index (\<lambda>memeIndex.
        io_bind (redis_set_index (ids_or_empty memeIndex @ [newMemeId now rnd])) (\<lambda>_.
        io_bind (add_to_categories (newMemeId now rnd) (req_categories req)) (\<lambda>_.
        io_bind (redis_get_portfolio (user_id currentUser)) (\<lambda>creatorPortfolio.
        io_bind (redis_set_meme (newMemeId now rnd)
                  ((newMemeData req currentUser now rnd)
                     \<lparr>availableShares := availableShares (newMemeData req currentUser now rnd) - 100\<rparr>)) (\<lambda>_.
        io_bind (redis_set_portfolio (user_id currentUser)
                  ((portfolio_or_empty creatorPortfolio)
                     (newMemeId now rnd \<mapsto> \<lparr>shares = 100, averageBuyPrice = 0\<rparr>))) (\<lambda>_.
        io_bind (scheduler_runAfter 3600 ''updateMemeValuation'' (newMemeId now rnd)) (\<lambda>_.
        io_return ((newMemeData req currentUser now rnd)
                     \<lparr>availableShares := availableShares (newMemeData req currentUser now rnd) - 100\<rparr>)))))))))) w
      = (Inr m, w')"
    by (simp add: createMeme_def Let_def)
  then obtain u w1 x2 w2 idx w3 x4 w4 x5 w5 cp w6 x7 w7 x8 w8 x9 w9
    where user: "reddit_getCurrentUser w = (Inr u, w1)"
      and "redis_set_meme (newMemeId now rnd) (newMemeData req u now rnd) w1 = (Inr x2, w2)"
      and "redis_get_index w2 = (Inr idx, w3)"
      and "redis_set_index (ids_or_empty idx @ [newMemeId now rnd]) w3 = (Inr x4, w4)"
      and "add_to_categories (newMemeId now rnd) (req_categories req) w4 = (Inr x5, w5)"
      and "redis_get_portfolio (user_id u) w5 = (Inr cp, w6)"
      and store: "redis_set_meme (newMemeId now rnd)
            ((newMemeData req u now rnd)\<lparr>availableShares := availableShares (newMemeData req u now rnd) - 100\<rparr>) w6
            = (Inr x7, w7)"
      and grant: "redis_set_portfolio (user_id u)
            ((portfolio_or_empty cp)(newMemeId now rnd \<mapsto> \<lparr>shares = 100, averageBuyPrice = 0\<rparr>)) w7
            = (Inr x8, w8)"
      and sched: "scheduler_runAfter 3600 ''updateMemeValuation'' (newMemeId now rnd) w8 = (Inr x9, w9)"
      and ret: "io_return ((newMemeData req u now rnd)
            \<lparr>availableShares := availableShares (newMemeData req u now rnd) - 100\<rparr>) w9 = (Inr m, w')"
    by (elim io_bind_InrE) blast
  from ret have m: "m = (newMemeData req u now rnd)\<lparr>availableShares := 1000 - 100\<rparr>" and w': "w' = w9"
    by (simp_all add: newMemeData_def)
  from redis_set_meme_InrD [OF store] redis_set_portfolio_InrD [OF grant] scheduler_runAfter_InrD [OF sched]
  have "memes w9 (newMemeId now rnd) =
        Some ((newMemeData req u now rnd)\<lparr>availableShares := availableShares (newMemeData req u now rnd) - 100\<rparr>)"
    and "portfolio w9 (user_id u) =
        Some ((portfolio_or_empty cp)(newMemeId now rnd \<mapsto> \<lparr>shares = 100, averageBuyPrice = 0\<rparr>))"
    by simp_all
  with m w' reddit_getCurrentUser_InrD [OF user] show ?thesis
    by (simp add: newMemeData_def)
qed


lemma redis_call_ok:
  "redis_faults w = [] \<Longrightarrow> redis_call op w = (Inr (fst (op w)), snd (op w))"
proof -
  assume a: "redis_faults w = []"
  then have "w\<lparr>redis_faults := tl (redis_faults w)\<rparr> = w" by (cases w) auto
  with a show ?thesis by (simp only: redis_call_run) (simp add: throws_next_def)
qed

lemma add_to_categories_ok:
  "redis_faults w = [] \<Longrightarrow>
   add_to_categories mid cs w = (Inr (), w\<lparr>category := category_after mid cs (category w)\<rparr>)"
proof (induction cs arbitrary: w)
  case Nil
  then show ?case by simp
next
  case (Cons c cs)
  let ?w = "w\<lparr>category := (category w)(c \<mapsto> ids_or_empty (category w c) @ [mid])\<rparr>"
  from Cons.prems have "redis_faults ?w = []" by simp
  then have "add_to_categories mid cs ?w =
      (Inr (), ?w\<lparr>category := category_after mid cs (category ?w)\<rparr>)"
    by (rule Cons.IH)
  moreover have "category ?w = (category w)(c \<mapsto> ids_or_empty (category w c) @ [mid])"
    by (simp add: fun_eq_iff)
  moreover have "?w\<lparr>category := X\<rparr> = w\<lparr>category := X\<rparr>" for X
    by simp
  ultimately have rest: "add_to_categories mid cs ?w =
      (Inr (), w\<lparr>category := category_after mid (c # cs) (category w)\<rparr>)"
    by (simp only: category_after.simps)
  have "add_to_categories mid (c # cs) w = add_to_categories mid cs ?w"
    using Cons.prems
    by (simp add: io_bind_def redis_get_category_def redis_set_category_def redis_call_ok)
  with rest show ?case by (simp only:)
qed

lemma createMeme_succeeds:
  assumes user: "current_user w = Some u"
    and store: "redis_faults w = []"
    and sched: "\<not> throws_next (sched_faults w)"
  shows "createMeme req now rnd w =
     (Inr ((newMemeData req u now rnd)\<lparr>availableShares := 900\<rparr>),
      w\<lparr> memes := (memes w)(newMemeId now rnd \<mapsto> (newMemeData req u now rnd)\<lparr>availableShares := 900\<rparr>),
         meme_index := Some (ids_or_empty (meme_index w) @ [newMemeId now rnd]),
         category := category_after (newMemeId now rnd) (req_categories req) (category w),
         portfolio := (portfolio w)(user_id u \<mapsto>
           (portfolio_or_empty (portfolio w (user_id u)))
             (newMemeId now rnd \<mapsto> \<lparr>shares = 100, averageBuyPrice = 0\<rparr>)),
         sched_faults := tl (sched_faults w),
         jobs := jobs w @ [\<lparr>delay = 3600, jobName = ''updateMemeValuation'', payload = newMemeId now rnd\<rparr>] \<rparr>)"
  using assms
  by (simp add: createMeme_def Let_def io_bind_def reddit_getCurrentUser_def
      redis_set_meme_def redis_get_index_def redis_set_index_def redis_get_portfolio_def
      redis_set_portfolio_def redis_call_ok add_to_categories_ok scheduler_runAfter_accepts
      newMemeData_def)


lemma newMemeId_example: "newMemeId 0 7 = ''meme_0_7''"
  by (simp add: newMemeId_def show_int_def show_nat.simps)

text \<open>
  C2, as amended: \<^verbatim>\<open>createMeme\<close> does not look at the sign of the initial price. For
  every request, whatever its \<^verbatim>\<open>initialSharePrice\<close>, when Reddit knows the current user and
  no call of the store or of the scheduler throws, it returns the created asset, whose
  initial and current price are the requested price, and the store holds that asset.
\<close>

theorem createMeme_accepts_any_price:
  assumes "current_user w = Some u"
    and "redis_faults w = []"
    and "\<not> throws_next (sched_faults w)"
  shows "\<exists>m. fst (createMeme req now rnd w) = Inr m
           \<and> initialSharePrice m = req_initialSharePrice req
           \<and> currentSharePrice m = req_initialSharePrice req
           \<and> memes (snd (createMeme req now rnd w)) (meme_id m) = Some m"
  by (simp add: createMeme_succeeds [OF assms]) (simp add: newMemeData_def)

theorem createMeme_accepts_any_price_witness:
  "current_user empty_world = Some example_user
   \<and> redis_faults empty_world = []
   \<and> \<not> throws_next (sched_faults empty_world)
   \<and> (\<exists>m. fst (createMeme (example_request 25) 0 7 empty_world) = Inr m
          \<and> initialSharePrice m = 25
          \<and> currentSharePrice m = 25
          \<and> memes (snd (createMeme (example_request 25) 0 7 empty_world)) (meme_id m) = Some m)"
  using createMeme_accepts_any_price [of empty_world example_user "example_request 25" 0 7]
  by (simp add: empty_world_def throws_next_def example_request_def)

text \<open>
  The claim as stated fails: a request with the initial price \<open>-5\<close> is not rejected. The
  call returns the asset, priced \<open>-5\<close>, and stores it.
\<close>

theorem nonpositive_price_accepted:
  "fst (createMeme (example_request (- 5)) 0 7 empty_world) =
     Inr ((newMemeData (example_request (- 5)) example_user 0 7)\<lparr>availableShares := 900\<rparr>)
   \<and> currentSharePrice ((newMemeData (example_request (- 5)) example_user 0 7)\<lparr>availableShares := 900\<rparr>) = - 5
   \<and> memes (snd (createMeme (example_request (- 5)) 0 7 empty_world)) ''meme_0_7'' =
       Some ((newMemeData (example_request (- 5)) example_user 0 7)\<lparr>availableShares := 900\<rparr>)"
proof -
  have "current_user empty_world = Some example_user" and "redis_faults empty_world = []"
    and "\<not> throws_next (sched_faults empty_world)"
    by (simp_all add: empty_world_def throws_next_def)
  from createMeme_succeeds [OF this, of "example_request (- 5)" 0 7] show ?thesis
    by (simp add: newMemeId_example) (simp add: newMemeData_def example_request_def)
qed

text \<open>
  C6: the asset a successful \<^verbatim>\<open>createMeme\<close> returns has 1000 shares in total, no trade
  volume, the engagement score 10 and a price history of one sample at the initial price;
  its available shares are the total less the founder's 100, which is a tenth of the
  total; and the creator's portfolio holds 100 shares of it at the average buy price 0.
\<close>

theorem founder_grant:
  assumes "createMeme req now rnd w = (Inr m, w')"
  shows "totalShares m = 1000
       \<and> tradeVolume m = 0
       \<and> engagementScore m = 10
       \<and> priceHistory m = [\<lparr>timestamp = now, price = initialSharePrice m\<rparr>]
       \<and> initialSharePrice m = req_initialSharePrice req
       \<and> availableShares m = totalShares m - 100
       \<and> 100 = 0.1 * totalShares m
       \<and> (\<exists>p. portfolio w' (creatorId m) = Some p
              \<and> p (meme_id m) = Some \<lparr>shares = 100, averageBuyPrice = 0\<rparr>)"
proof -
  from createMeme_InrD [OF assms] obtain u p
    where "m = (newMemeData req u now rnd)\<lparr>availableShares := 1000 - 100\<rparr>"
      and "portfolio w' (user_id u) = Some p"
      and "p (newMemeId now rnd) = Some \<lparr>shares = 100, averageBuyPrice = 0\<rparr>"
    by blast
  then show ?thesis by (simp add: newMemeData_def)
qed

theorem founder_grant_witness:
  "createMeme (example_request 10) 0 7 empty_world =
     (Inr (example_meme\<lparr>availableShares := 900\<rparr>), snd (createMeme (example_request 10) 0 7 empty_world))
   \<and> totalShares (example_meme\<lparr>availableShares := 900\<rparr>) = 1000
   \<and> availableShares (example_meme\<lparr>availableShares := 900\<rparr>) = 900
   \<and> priceHistory (example_meme\<lparr>availableShares := 900\<rparr>) = [\<lparr>timestamp = 0, price = 10\<rparr>]
   \<and> (\<exists>p. portfolio (snd (createMeme (example_request 10) 0 7 empty_world)) ''t2_alice'' = Some p
          \<and> p ''meme_0_7'' = Some \<lparr>shares = 100, averageBuyPrice = 0\<rparr>)"
proof -
  have "current_user empty_world = Some example_user" and "redis_faults empty_world = []"
    and "\<not> throws_next (sched_faults empty_world)"
    by (simp_all add: empty_world_def throws_next_def)
  from createMeme_succeeds [OF this, of "example_request 10" 0 7]
  have run: "createMeme (example_request 10) 0 7 empty_world =
     (Inr (example_meme\<lparr>availableShares := 900\<rparr>), snd (createMeme (example_request 10) 0 7 empty_world))"
    by (simp add: example_meme_def)
  from founder_grant [OF run] run show ?thesis
    by (simp add: example_meme_def newMemeData_def example_request_def example_user_def
        newMemeId_example)
qed


section \<open>The floor of the engagement score\<close>

lemma engagementFromPost_floor: "10 \<le> engagementFromPost meme post"
  by (simp add: engagementFromPost_def)

lemma fetchEngagement_floor:
  assumes "fst (fetchEngagement meme w) = Inr s" and "10 \<le> engagementScore meme"
  shows "10 \<le> s"
proof -
  from fetchEngagement_run [of meme w] assms(1)
  have "s = js_or_num (engagementScore meme) 10 \<or> (\<exists>post. s = engagementFromPost meme post)"
    by auto
  with assms(2) show ?thesis
    by (auto simp: js_or_num_def engagementFromPost_floor)
qed

lemma makeValuation_score [simp]: "valEngagementScore (makeValuation mid now meme s) = s"
  by (simp add: makeValuation_def Let_def)

lemma valuation_score_floor:
  assumes "memes w mid = Some meme" and "10 \<le> engagementScore meme"
    and "fst (calculateMemeValue mid now w) = Inr v"
  shows "10 \<le> valEngagementScore v"
proof -
  from assms(3) have "calculateMemeValue mid now w = (Inr v, snd (calculateMemeValue mid now w))"
    by (simp add: prod_eq_iff)
  then obtain meme' s where "memes w mid = Some meme'" and "fst (fetchEngagement meme' w) = Inr s"
    and "v = makeValuation mid now meme' s"
    by (rule calculateMemeValue_InrD)
  with assms(1,2) fetchEngagement_floor [of meme w s] show ?thesis by simp
qed

lemma update_keeps_floor:
  "preserves (\<lambda>w. \<forall>m. memes w k = Some m \<longrightarrow> 10 \<le> engagementScore m)
     (updateMemeValuation mid now)"
proof -
  define P :: "world \<Rightarrow> bool"
    where "P = (\<lambda>w. \<forall>m. memes w k = Some m \<longrightarrow> 10 \<le> engagementScore m)"
  define R :: "error + MemeValuation \<Rightarrow> world \<Rightarrow> bool"
    where "R = (\<lambda>r w. P w \<and> (\<forall>v. r = Inr v \<longrightarrow> k = mid \<longrightarrow> 10 \<le> valEngagementScore v))"
  let ?sched = "scheduler_runAfter 3600 ''updateMemeValuation'' mid"
  let ?rest = "\<lambda>valuation. io_bind (redis_get_meme mid) (\<lambda>memeJson.
        case memeJson of None \<Rightarrow> io_throw (MemeNotFound mid)
        | Some meme \<Rightarrow> io_bind (redis_set_meme mid (commitValuation meme valuation)) (\<lambda>_.
            io_bind (updateMarketHistory valuation) (\<lambda>_. ?sched)))"
  have calc: "triple P (calculateMemeValue mid now) R"
  proof (rule tripleI)
    fix w assume Pw: "P w"
    then have "P (snd (calculateMemeValue mid now w))"
      by (simp add: calculateMemeValue_world P_def)
    moreover have "10 \<le> valEngagementScore v"
      if "fst (calculateMemeValue mid now w) = Inr v" and "k = mid" for v
    proof -
      from that(1) have "calculateMemeValue mid now w = (Inr v, snd (calculateMemeValue mid now w))"
        by (simp add: prod_eq_iff)
      then obtain meme s where meme: "memes w mid = Some meme"
        by (rule calculateMemeValue_InrD)
      with Pw that(2) have "10 \<le> engagementScore meme" by (simp add: P_def)
      from valuation_score_floor [OF meme this that(1)] show ?thesis .
    qed
    ultimately show "R (fst (calculateMemeValue mid now w)) (snd (calculateMemeValue mid now w))"
      by (simp add: R_def)
  qed
  have sched: "preserves P ?sched"
    by (rule preserves_scheduler_runAfter) (simp_all add: P_def)
  have tail: "preserves P (io_bind (updateMarketHistory v) (\<lambda>_. ?sched))" for v
    by (intro preserves_bind preserves_updateMarketHistory sched) (simp_all add: P_def)
  have store: "preserves P (redis_set_meme mid (commitValuation meme v))"
    if "k = mid \<longrightarrow> 10 \<le> valEngagementScore v" for meme v
  proof (rule preserves_redis_set_meme)
    show "\<And>w fs. P w \<Longrightarrow> P (w\<lparr>redis_faults := fs\<rparr>)" by (simp add: P_def)
    show "\<And>w. P w \<Longrightarrow> P (w\<lparr>memes := (memes w)(mid \<mapsto> commitValuation meme v)\<rparr>)"
      using that by (simp add: P_def)
  qed
  have branch: "preserves P (case memeJson of None \<Rightarrow> io_throw (MemeNotFound mid)
        | Some meme \<Rightarrow> io_bind (redis_set_meme mid (commitValuation meme v)) (\<lambda>_.
            io_bind (updateMarketHistory v) (\<lambda>_. ?sched)))"
    if "k = mid \<longrightarrow> 10 \<le> valEngagementScore v" for memeJson v
  proof (cases memeJson)
    case None
    then show ?thesis by (simp only: option.case) (rule preserves_throw)
  next
    case (Some meme)
    then show ?thesis
      by (simp only: option.case) (intro preserves_bind store [OF that] tail)
  qed
  have rest: "preserves P (?rest v)" if "k = mid \<longrightarrow> 10 \<le> valEngagementScore v" for v
    by (intro preserves_bind preserves_redis_get branch [OF that]) (simp add: P_def)
  have "triple (R (Inr v)) (?rest v) (\<lambda>_. P)" for v
  proof (rule tripleI)
    fix w assume "R (Inr v) w"
    then have "P w" and "k = mid \<longrightarrow> 10 \<le> valEngagementScore v" by (simp_all add: R_def)
    from preservesD [OF rest [OF this(2)] this(1)] show "P (snd (?rest v w))" .
  qed
  then have "triple P (io_bind (calculateMemeValue mid now) ?rest) (\<lambda>_. P)"
    by (intro triple_bind [where R = R and Q = "\<lambda>_. P"] calc) (simp_all add: R_def)
  then have "preserves P (io_bind (calculateMemeValue mid now) ?rest)"
    by (rule preserves_triple)
  then have "preserves P (updateMemeValuation mid now)"
    unfolding updateMemeValuation_def by (intro preserves_catch sched)
  then show ?thesis by (simp add: P_def)
qed

text \<open>
  C9: \<^verbatim>\<open>createMeme\<close> gives the new asset the engagement score 10 and stores it so; the
  score of a valuation of an asset whose stored score is at least 10 is at least 10,
  whether it is computed from the post or carried over; and for every id, when the
  asset stored under it has a score of at least 10, so has the asset stored under it
  after \<^verbatim>\<open>createMeme\<close> and after \<^verbatim>\<open>updateMemeValuation\<close>, however the call ends.
\<close>

theorem engagement_floor_invariant:
  "(fst (createMeme req now rnd w) = Inr m \<longrightarrow>
      engagementScore m = 10 \<and> memes (snd (createMeme req now rnd w)) (meme_id m) = Some m)
   \<and> (memes w mid = Some meme \<and> 10 \<le> engagementScore meme
        \<and> fst (calculateMemeValue mid now' w) = Inr v \<longrightarrow> 10 \<le> valEngagementScore v)
   \<and> ((\<forall>a. memes w k = Some a \<longrightarrow> 10 \<le> engagementScore a) \<longrightarrow>
        (\<forall>a. memes (snd (updateMemeValuation mid now' w)) k = Some a \<longrightarrow> 10 \<le> engagementScore a)
      \<and> (\<forall>a. memes (snd (createMeme req now rnd w)) k = Some a \<longrightarrow> 10 \<le> engagementScore a))"
proof -
  have created: "engagementScore m = 10 \<and> memes (snd (createMeme req now rnd w)) (meme_id m) = Some m"
    if "fst (createMeme req now rnd w) = Inr m"
  proof -
    from that have "createMeme req now rnd w = (Inr m, snd (createMeme req now rnd w))"
      by (simp add: prod_eq_iff)
    from createMeme_InrD [OF this] show ?thesis by (auto simp: newMemeData_def)
  qed
  have kept: "(\<forall>a. memes (snd (updateMemeValuation mid now' w)) k = Some a \<longrightarrow> 10 \<le> engagementScore a)
      \<and> (\<forall>a. memes (snd (createMeme req now rnd w)) k = Some a \<longrightarrow> 10 \<le> engagementScore a)"
    if "\<forall>a. memes w k = Some a \<longrightarrow> 10 \<le> engagementScore a"
    using preservesD [OF update_keeps_floor [of k mid now'], of w]
      preservesD [OF createMeme_keeps_floor [of k req now rnd], of w] that
    by simp
  from created valuation_score_floor [of w mid meme now' v] kept show ?thesis by blast
qed


theorem engagement_floor_invariant_witness:
  "memes example_world ''meme_0_7'' = Some example_meme
   \<and> 10 \<le> engagementScore example_meme
   \<and> (\<exists>v. fst (calculateMemeValue ''meme_0_7'' 3600000 example_world) = Inr v
          \<and> 10 \<le> valEngagementScore v
          \<and> memes (snd (updateMemeValuation ''meme_0_7'' 3600000 example_world)) ''meme_0_7''
              = Some (commitValuation example_meme v)
          \<and> 10 \<le> engagementScore (commitValuation example_meme v))
   \<and> engagementScore (example_meme\<lparr>availableShares := 900\<rparr>) = 10
   \<and> memes (snd (createMeme (example_request 10) 0 7 empty_world)) ''meme_0_7''
       = Some (example_meme\<lparr>availableShares := 900\<rparr>)"
proof -
  have stored: "memes example_world ''meme_0_7'' = Some example_meme"
    and ok: "True \<notin> set (take 3 (redis_faults example_world))"
    and floor: "10 \<le> engagementScore example_meme"
    by (simp_all add: example_world_def empty_world_def example_meme_def newMemeData_def)
  from update_commits [OF stored ok, of 3600000] obtain v
    where v: "fst (calculateMemeValue ''meme_0_7'' 3600000 example_world) = Inr v"
      and commit: "memes (snd (updateMemeValuation ''meme_0_7'' 3600000 example_world)) ''meme_0_7''
              = Some (commitValuation example_meme v)"
    by auto
  have "current_user empty_world = Some example_user" and "redis_faults empty_world = []"
    and "\<not> throws_next (sched_faults empty_world)"
    by (simp_all add: empty_world_def throws_next_def)
  from createMeme_succeeds [OF this, of "example_request 10" 0 7]
  have run: "fst (createMeme (example_request 10) 0 7 empty_world) = Inr (example_meme\<lparr>availableShares := 900\<rparr>)"
    by (simp add: example_meme_def)
  note at_update = engagement_floor_invariant [where w = example_world and mid = "''meme_0_7''"
      and meme = example_meme and now' = 3600000 and v = v and k = "''meme_0_7''"]
  note at_create = engagement_floor_invariant [where w = empty_world and req = "example_request 10"
      and now = 0 and rnd = 7 and m = "example_meme\<lparr>availableShares := 900\<rparr>"]
  from at_update stored floor v have a: "10 \<le> valEngagementScore v"
    by blast
  from stored floor have "\<forall>a. memes example_world ''meme_0_7'' = Some a \<longrightarrow> 10 \<le> engagementScore a"
    by simp
  with at_update commit have b: "10 \<le> engagementScore (commitValuation example_meme v)"
    by blast
  from at_create run have c: "engagementScore (example_meme\<lparr>availableShares := 900\<rparr>) = 10"
    and d: "memes (snd (createMeme (example_request 10) 0 7 empty_world))
              (meme_id (example_meme\<lparr>availableShares := 900\<rparr>))
            = Some (example_meme\<lparr>availableShares := 900\<rparr>)"
    by blast+
  have "meme_id (example_meme\<lparr>availableShares := 900\<rparr>) = ''meme_0_7''"
    by (simp add: example_meme_def newMemeData_def newMemeId_example)
  with d have e: "memes (snd (createMeme (example_request 10) 0 7 empty_world)) ''meme_0_7''
       = Some (example_meme\<lparr>availableShares := 900\<rparr>)"
    by (simp only:)
  from stored floor v a commit b c e show ?thesis by blast
qed


section \<open>Properties of the ranking\<close>

subsection \<open>Slices\<close>

lemma js_slice_prefix:
  "js_slice xs 0 e = take (if e < 0 then nat (int (length xs) + e) else nat e) xs"
  by (auto simp: js_slice_def Let_def min_def max_def)

lemma js_slice_zero [simp]: "js_slice xs 0 0 = []"
  by (simp add: js_slice_prefix)

lemma js_slice_length_le: "0 \<le> e \<Longrightarrow> int (length (js_slice xs 0 e)) \<le> e"
  by (simp add: js_slice_prefix)

lemma js_to_integer_small: "- 1 < r \<Longrightarrow> r < 1 \<Longrightarrow> js_to_integer r = 0"
  unfolding js_to_integer_def by (auto simp: floor_eq_iff ceiling_eq_iff)

lemma js_to_integer_pos: "0 < r \<Longrightarrow> 0 \<le> js_to_integer r \<and> real_of_int (js_to_integer r) \<le> r"
  unfolding js_to_integer_def by simp

lemma js_to_integer_of_int: "js_to_integer (of_int i) = i"
  by (simp add: js_to_integer_def)

lemma js_to_integer_minus_one: "js_to_integer (- 1) = - 1"
  using js_to_integer_of_int [of "- 1"] by simp

subsection \<open>The sort\<close>













subsection \<open>Loading\<close>

lemma load_memes_ok:
  "redis_faults w = [] \<Longrightarrow>
   load_memes ids acc w = (Inr (acc @ List.map_filter (memes w) ids), w)"
proof (induction ids arbitrary: acc)
  case Nil
  then show ?case by (simp add: List.map_filter_simps)
next
  case (Cons k ks)
  then show ?case
    by (cases "memes w k")
       (simp_all add: io_bind_def redis_get_meme_def redis_call_ok List.map_filter_simps)
qed

lemma memeIdsToFetch_ok:
  "redis_faults w = [] \<Longrightarrow> memeIdsToFetch cat w = (Inr (indexed_ids cat w), w)"
  by (simp add: memeIdsToFetch_def indexed_ids_def io_bind_def redis_get_index_def
      redis_get_category_def redis_call_ok split: option.splits)

lemma getTrendingMemes_ok:
  assumes "redis_faults w = []"
  shows "getTrendingMemes limit_opt cat w =
     (Inr (js_slice (js_sort trendingCompare (List.map_filter (memes w) (indexed_ids cat w))) 0
            (js_to_integer (case limit_opt of None \<Rightarrow> 10 | Some l \<Rightarrow> l))), w)"
  using assms
  by (simp add: getTrendingMemes_def Let_def io_catch_def io_bind_def memeIdsToFetch_ok load_memes_ok)

lemma getTrendingMemes_result:
  "fst (getTrendingMemes limit_opt cat w) = Inr []
   \<or> (\<exists>loaded. fst (getTrendingMemes limit_opt cat w) =
        Inr (js_slice (js_sort trendingCompare loaded) 0
              (js_to_integer (case limit_opt of None \<Rightarrow> 10 | Some l \<Rightarrow> l))))"
proof -
  let ?lim = "js_to_integer (case limit_opt of None \<Rightarrow> 10 | Some l \<Rightarrow> l)"
  let ?body = "io_bind (memeIdsToFetch cat) (\<lambda>ids.
         io_bind (load_memes ids []) (\<lambda>loaded.
         io_return (js_slice (js_sort trendingCompare loaded) 0 ?lim)))"
  have run: "getTrendingMemes limit_opt cat w = io_catch ?body (\<lambda>error. io_return []) w"
    by (simp add: getTrendingMemes_def Let_def)
  show ?thesis
  proof (cases rule: io_result_cases [of ?body w])
    case (throws e w')
    then show ?thesis by (simp only: run io_catch_Inl [where m = ?body, OF throws]) simp
  next
    case (returns x w')
    then obtain ids w1 loaded w2 where "load_memes ids [] w1 = (Inr loaded, w2)"
      and "io_return (js_slice (js_sort trendingCompare loaded) 0 ?lim) w2 = (Inr x, w')"
      by (elim io_bind_InrE) blast
    then have "x = js_slice (js_sort trendingCompare loaded) 0 ?lim" by simp
    with returns show ?thesis
      by (simp only: run io_catch_Inr [where m = ?body, OF returns]) auto
  qed
qed



subsection \<open>The example rankings\<close>

lemma example_changes:
  "getChangePercent example_meme = Finite 0"
  "getChangePercent rising_meme = Finite 0.3"
  "getChangePercent launched_at_zero = Infinity"
  "getChangePercent flat_zero_meme = NaN"
  by (simp_all add: getChangePercent_def js_div_def rising_meme_def launched_at_zero_def
      flat_zero_meme_def example_meme_def newMemeData_def Let_def)

lemma example_loaded:
  "List.map_filter (memes two_meme_world) (indexed_ids None two_meme_world) = [example_meme, rising_meme]"
  by (simp add: two_meme_world_def empty_world_def indexed_ids_def ids_or_empty_def
      List.map_filter_simps)

lemma example_ranked: "js_sort trendingCompare [example_meme, rising_meme] = [rising_meme, example_meme]"
  by (simp add: js_sort_def trendingCompare_def example_changes js_positive_def)

lemma example_ranking:
  "fst (getTrendingMemes limit_opt None two_meme_world) =
     Inr (js_slice [rising_meme, example_meme] 0
           (js_to_integer (case limit_opt of None \<Rightarrow> 10 | Some l \<Rightarrow> l)))"
proof -
  have "redis_faults two_meme_world = []"
    by (simp add: two_meme_world_def empty_world_def)
  from getTrendingMemes_ok [OF this, of limit_opt None] show ?thesis
    by (simp only: example_loaded example_ranked fst_conv)
qed




text \<open>
  C7, as amended: \<^verbatim>\<open>getTrendingMemes\<close> returns a list and raises no error, whatever the
  store holds and whichever of its calls throw. For the limit 0, and any limit strictly
  between \<open>-1\<close> and \<open>1\<close>, the list is empty; for a positive limit it has at most limit
  entries.
\<close>

theorem trending_limit:
  "\<exists>ms. fst (getTrendingMemes (Some limit) cat w) = Inr ms
      \<and> (- 1 < limit \<and> limit < 1 \<longrightarrow> ms = [])
      \<and> (0 < limit \<longrightarrow> real (length ms) \<le> limit)"
proof -
  from getTrendingMemes_result [of "Some limit" cat w]
  consider "fst (getTrendingMemes (Some limit) cat w) = Inr []"
    | loaded where "fst (getTrendingMemes (Some limit) cat w) =
        Inr (js_slice (js_sort trendingCompare loaded) 0 (js_to_integer limit))"
    by auto
  then show ?thesis
  proof cases
    case 1
    then show ?thesis by simp
  next
    case (2 loaded)
    let ?ms = "js_slice (js_sort trendingCompare loaded) 0 (js_to_integer limit)"
    have "?ms = []" if "- 1 < limit" and "limit < 1"
      using that by (simp add: js_to_integer_small)
    moreover have "real (length ?ms) \<le> limit" if "0 < limit"
    proof -
      from js_to_integer_pos [OF that] have "0 \<le> js_to_integer limit"
        and le: "real_of_int (js_to_integer limit) \<le> limit" by simp_all
      from js_slice_length_le [OF this(1), of "js_sort trendingCompare loaded"]
      have "real (length ?ms) \<le> real_of_int (js_to_integer limit)"
        by (metis of_int_le_iff of_int_of_nat_eq)
      with le show ?thesis by simp
    qed
    ultimately show ?thesis using 2 by simp
  qed
qed

theorem trending_limit_witness:
  "- 1 < (0::real) \<and> (0::real) < 1
   \<and> fst (getTrendingMemes (Some 0) None two_meme_world) = Inr []
   \<and> (\<exists>ms. fst (getTrendingMemes (Some 1) None two_meme_world) = Inr ms \<and> real (length ms) \<le> 1)
   \<and> fst (getTrendingMemes (Some 1) None two_meme_world) = Inr [rising_meme]"
proof -
  from trending_limit [of 0 None two_meme_world]
  have "fst (getTrendingMemes (Some 0) None two_meme_world) = Inr []" by auto
  moreover from trending_limit [of 1 None two_meme_world]
  have "\<exists>ms. fst (getTrendingMemes (Some 1) None two_meme_world) = Inr ms \<and> real (length ms) \<le> 1"
    by auto
  moreover have "fst (getTrendingMemes (Some 1) None two_meme_world) = Inr [rising_meme]"
    by (simp add: example_ranking js_slice_prefix js_to_integer_def)
  ultimately show ?thesis by simp
qed

text \<open>
  The claim as stated fails for a negative limit: \<^verbatim>\<open>slice(0, -1)\<close> drops the last entry
  of the ranking and keeps the rest, so with two assets in the store the limit \<open>-1\<close>
  returns one of them.
\<close>

theorem negative_limit_not_empty:
  "fst (getTrendingMemes (Some (- 1)) None two_meme_world) = Inr [rising_meme]"
  by (simp add: example_ranking js_slice_prefix js_to_integer_minus_one)




section \<open>Further properties\<close>

text \<open>
  The valuation at an unchanged score: the price change is \<open>0\<close> whatever the age and the
  trade volume, and the new price is the current one, floored at \<open>0.1\<close>. At the current
  price 10 and the stored score 10, a new score of 20 on a fresh asset without trades
  gives the change \<open>0.3\<close> and the new price 13.
\<close>

theorem valuation_examples:
  "calculatePriceChange now meme (prevEngagementScore meme) = 0
   \<and> newPrice meme 0 = max 0.1 (currentSharePrice meme)
   \<and> scoreChangePercent example_meme 20 = 1
   \<and> volatilityFactor 0 example_meme = 1
   \<and> volumeFactor example_meme = 1
   \<and> calculatePriceChange 0 example_meme 20 = 0.3
   \<and> newPrice example_meme (calculatePriceChange 0 example_meme 20) = 13"
proof -
  have a: "scoreChangePercent example_meme 20 = 1" "volatilityFactor 0 example_meme = 1"
    "volumeFactor example_meme = 1"
    by (simp_all add: scoreChangePercent_def prevEngagementScore_def js_or_num_def
        volatilityFactor_def ageInDays_def volumeFactor_def example_meme_def newMemeData_def)
  then have b: "calculatePriceChange 0 example_meme 20 = 0.3"
    by (simp add: calculatePriceChange_def rawPriceChange_def)
  have "newPrice example_meme 0.3 = 13"
    by (simp add: newPrice_def example_meme_def newMemeData_def example_request_def)
  with b have c: "newPrice example_meme (calculatePriceChange 0 example_meme 20) = 13"
    by (simp only:)
  have "calculatePriceChange now meme (prevEngagementScore meme) = 0"
    by (simp add: calculatePriceChange_def rawPriceChange_def scoreChangePercent_def)
  moreover have "newPrice meme 0 = max 0.1 (currentSharePrice meme)"
    by (simp add: newPrice_def)
  ultimately show ?thesis using a b c by simp
qed

text \<open>
  When the fetch of the post fails, the valuation goes on with the stored score (the
  default 10 for a stored \<open>0\<close>).
\<close>

theorem failed_fetch_keeps_score:
  assumes "postId meme = Some pid" and "posts w pid = None"
  shows "fetchEngagement meme w = (Inr (js_or_num (engagementScore meme) 10), w)"
  using assms
  by (simp add: fetchEngagement_def Let_def io_catch_def io_bind_def reddit_getPostById_def)

theorem failed_fetch_keeps_score_witness:
  "postId (example_meme\<lparr>postId := Some ''t3_abc''\<rparr>) = Some ''t3_abc''
   \<and> posts empty_world ''t3_abc'' = None
   \<and> fetchEngagement (example_meme\<lparr>postId := Some ''t3_abc''\<rparr>) empty_world = (Inr 10, empty_world)"
  using failed_fetch_keeps_score [of "example_meme\<lparr>postId := Some ''t3_abc''\<rparr>" "''t3_abc''" empty_world]
  by (simp add: empty_world_def js_or_num_def example_meme_def newMemeData_def)

text \<open>
  The re-arming rests on the scheduler: when the pass fails and the scheduler call of the
  handler throws as well, the error leaves \<^verbatim>\<open>updateMemeValuation\<close> and no job is
  scheduled.
\<close>

theorem rearm_fails_with_scheduler:
  assumes "throws_next (redis_faults w)" and "throws_next (sched_faults w)"
  shows "fst (updateMemeValuation mid now w) = Inl SchedulerError
       \<and> jobs (snd (updateMemeValuation mid now w)) = jobs w"
proof -
  let ?w1 = "w\<lparr>redis_faults := tl (redis_faults w)\<rparr>"
  from calculateMemeValue_throws [OF assms(1), of mid now]
  have "updateMemeValuation mid now w = scheduler_runAfter 3600 ''updateMemeValuation'' mid ?w1"
    unfolding updateMemeValuation_def
    by (rule io_catch_bind_Inl [where m = "calculateMemeValue mid now"])
  with assms(2) show ?thesis by (simp add: scheduler_runAfter_def Let_def)
qed

theorem rearm_fails_with_scheduler_witness:
  "throws_next (redis_faults (empty_world\<lparr>redis_faults := [True], sched_faults := [True]\<rparr>))
   \<and> throws_next (sched_faults (empty_world\<lparr>redis_faults := [True], sched_faults := [True]\<rparr>))
   \<and> fst (updateMemeValuation ''meme_0_7'' 0
            (empty_world\<lparr>redis_faults := [True], sched_faults := [True]\<rparr>)) = Inl SchedulerError
   \<and> jobs (snd (updateMemeValuation ''meme_0_7'' 0
            (empty_world\<lparr>redis_faults := [True], sched_faults := [True]\<rparr>))) = []"
  using rearm_fails_with_scheduler
    [of "empty_world\<lparr>redis_faults := [True], sched_faults := [True]\<rparr>" "''meme_0_7''" 0]
  by (simp add: throws_next_def empty_world_def)

text \<open>
  When no call throws, \<^verbatim>\<open>createMeme\<close> appends the new id to the global index and to the
  index of every category of the request, and schedules the first recompute pass for the
  new id after 3600 seconds.
\<close>

lemma category_after_other: "c \<notin> set cs \<Longrightarrow> category_after mid cs cat c = cat c"
  by (induction cs arbitrary: cat) simp_all

lemma category_after_member:
  "c \<in> set cs \<Longrightarrow> \<exists>ids. category_after mid cs cat c = Some ids \<and> mid \<in> set ids"
proof (induction cs arbitrary: cat)
  case Nil
  then show ?case by simp
next
  case (Cons d cs)
  show ?case
  proof (cases "c \<in> set cs")
    case True
    from Cons.IH [OF this] show ?thesis by simp
  next
    case False
    with Cons.prems have "c = d" by simp
    with False show ?thesis by (simp add: category_after_other)
  qed
qed

theorem createMeme_registers:
  assumes "current_user w = Some u"
    and "redis_faults w = []"
    and "\<not> throws_next (sched_faults w)"
  shows "meme_index (snd (createMeme req now rnd w)) = Some (ids_or_empty (meme_index w) @ [newMemeId now rnd])
       \<and> (\<forall>c\<in>set (req_categories req).
            \<exists>ids. category (snd (createMeme req now rnd w)) c = Some ids \<and> newMemeId now rnd \<in> set ids)
       \<and> jobs (snd (createMeme req now rnd w)) =
           jobs w @ [\<lparr>delay = 3600, jobName = ''updateMemeValuation'', payload = newMemeId now rnd\<rparr>]"
  by (simp add: createMeme_succeeds [OF assms] category_after_member)

theorem createMeme_registers_witness:
  "current_user empty_world = Some example_user
   \<and> redis_faults empty_world = []
   \<and> \<not> throws_next (sched_faults empty_world)
   \<and> meme_index (snd (createMeme (example_request 10) 0 7 empty_world)) = Some [''meme_0_7'']
   \<and> category (snd (createMeme (example_request 10) 0 7 empty_world)) ''funny'' = Some [''meme_0_7'']
   \<and> jobs (snd (createMeme (example_request 10) 0 7 empty_world)) =
       [\<lparr>delay = 3600, jobName = ''updateMemeValuation'', payload = ''meme_0_7''\<rparr>]"
proof -
  have pre: "current_user empty_world = Some example_user" "redis_faults empty_world = []"
    "\<not> throws_next (sched_faults empty_world)"
    by (simp_all add: empty_world_def throws_next_def)
  have "category (snd (createMeme (example_request 10) 0 7 empty_world)) ''funny'' = Some [''meme_0_7'']"
    by (simp add: createMeme_succeeds [OF pre] newMemeId_example)
       (simp add: example_request_def empty_world_def ids_or_empty_def)
  with createMeme_registers [OF pre, of "example_request 10" 0 7] pre show ?thesis
    by (simp add: newMemeId_example) (simp add: empty_world_def ids_or_empty_def)
qed

text \<open>
  The creation is not atomic: when the store takes the first write and throws at the
  next call, \<^verbatim>\<open>createMeme\<close> fails, yet the asset is in the store, with all 1000 shares
  available, in no index and with no grant in the creator's portfolio.
\<close>

theorem createMeme_partial_write:
  "fst (createMeme (example_request 10) 0 7 (empty_world\<lparr>redis_faults := [False, True]\<rparr>)) = Inl StoreError
   \<and> memes (snd (createMeme (example_request 10) 0 7 (empty_world\<lparr>redis_faults := [False, True]\<rparr>)))
       ''meme_0_7'' = Some example_meme
   \<and> availableShares example_meme = 1000
   \<and> meme_index (snd (createMeme (example_request 10) 0 7 (empty_world\<lparr>redis_faults := [False, True]\<rparr>))) = None
   \<and> portfolio (snd (createMeme (example_request 10) 0 7 (empty_world\<lparr>redis_faults := [False, True]\<rparr>)))
       ''t2_alice'' = None"
proof -
  let ?w = "empty_world\<lparr>redis_faults := [False, True]\<rparr>"
  let ?w1 = "?w\<lparr>memes := (memes ?w)(newMemeId 0 7 \<mapsto> example_meme), redis_faults := [True]\<rparr>"
  have "createMeme (example_request 10) 0 7 ?w = (Inl StoreError, ?w1\<lparr>redis_faults := []\<rparr>)"
    by (simp add: createMeme_def Let_def io_bind_def reddit_getCurrentUser_def
        redis_set_meme_def redis_get_index_def redis_call_run throws_next_def
        empty_world_def example_meme_def)
  then show ?thesis
    by (simp add: newMemeId_example) (simp add: empty_world_def example_meme_def newMemeData_def)
qed

text \<open>
  A failure of the store inside \<^verbatim>\<open>getTrendingMemes\<close> is caught: the caller gets the empty
  list.
\<close>

theorem trending_store_failure:
  assumes "throws_next (redis_faults w)"
  shows "fst (getTrendingMemes limit_opt cat w) = Inr []"
proof -
  from assms have "fst (memeIdsToFetch cat w) = Inl StoreError"
    by (simp add: memeIdsToFetch_def io_bind_def redis_get_index_def redis_get_category_def
        redis_call_run split: option.splits)
  then have "memeIdsToFetch cat w = (Inl StoreError, snd (memeIdsToFetch cat w))"
    by (simp add: prod_eq_iff)
  then show ?thesis
    by (simp add: getTrendingMemes_def Let_def io_catch_bind_Inl [where m = "memeIdsToFetch cat"])
qed

theorem trending_store_failure_witness:
  "throws_next (redis_faults (two_meme_world\<lparr>redis_faults := [True]\<rparr>))
   \<and> fst (getTrendingMemes (Some 20) None (two_meme_world\<lparr>redis_faults := [True]\<rparr>)) = Inr []"
  using trending_store_failure [of "two_meme_world\<lparr>redis_faults := [True]\<rparr>" "Some 20" None]
  by (simp add: throws_next_def)


end
